theory Spec2Isabelle
  imports Complex_Main "HOL-Library.Log_Nat"
begin

section \<open>JavaScript values used by the pipeline\<close>

text \<open>
  The build-time script \<^verbatim>\<open>scripts/enrich-geojson.js\<close> and the runtime transformer
  \<^verbatim>\<open>services/dataTransformer.ts\<close> work on JSON data with JavaScript's dynamic
  operators. The embedding fixes the following representation.

  \<^item> A JavaScript number is a \<open>jsnum\<close>: \<open>NaN\<close>, the two infinities, or a finite value
    held as the rational it denotes. The result of a parse, a division or a product is
    rounded to the nearest double (\<open>toDouble\<close> below). The one idealisation is that \<open>-0\<close>
    is identified with \<open>0\<close> (both are falsy and both serialise as \<open>0\<close>).
  \<^item> A property value is a \<open>jsval\<close>: \<open>undefined\<close>, \<open>null\<close>, a boolean, a number, a
    string, or a member inherited from \<open>Object.prototype\<close>, named by its key. Property
    bags are flat; nested arrays and objects as property values are not represented.
  \<^item> An object is a map from its own keys; what a read finds on the prototype chain
    when the key is not an own one is written out where the key is not a fixed name
    (\<open>latestGet\<close>, \<open>incomeGet\<close>, \<open>objGet\<close> below).
  \<^item> A string is held in its UTF-8 encoding, one \<open>char\<close> per byte. The characters the
    code tests for (quote, comma, digits, signs) are single bytes that occur in no other
    character's encoding.
\<close>

datatype jsnum = NaN | PInf | NInf | Fin rat

datatype jsval = JUndefined | JNull | JBool bool | JNum jsnum | JStr string | JInherited string

type_synonym props = "string \<rightharpoonup> jsval"

type_synonym row = "string \<rightharpoonup> string"

fun truthyNum :: "jsnum \<Rightarrow> bool" where
  "truthyNum NaN = False"
| "truthyNum PInf = True"
| "truthyNum NInf = True"
| "truthyNum (Fin q) = (q \<noteq> 0)"

fun truthy :: "jsval \<Rightarrow> bool" where
  "truthy JUndefined = False"
| "truthy JNull = False"
| "truthy (JBool b) = b"
| "truthy (JNum n) = truthyNum n"
| "truthy (JStr s) = (s \<noteq> [])"
| "truthy (JInherited k) = True"

text \<open>\<^verbatim>\<open>a || b\<close> on values, and on numbers.\<close>

definition jsor :: "jsval \<Rightarrow> jsval \<Rightarrow> jsval" where
  "jsor a b = (if truthy a then a else b)"

definition numOr :: "jsnum \<Rightarrow> jsnum \<Rightarrow> jsnum" where
  "numOr a b = (if truthyNum a then a else b)"

text \<open>
  \<^verbatim>\<open>props.k\<close> for the fixed names \<open>k\<close> that the code reads from a feature's properties
  (none of them is the name of a member of \<open>Object.prototype\<close>): a missing key reads as
  \<open>undefined\<close>.
\<close>

definition getProp :: "props \<Rightarrow> string \<Rightarrow> jsval" where
  "getProp p k = (case p k of None \<Rightarrow> JUndefined | Some v \<Rightarrow> v)"

text \<open>
  \<^verbatim>\<open>row.k || d\<close> for a CSV row and a fixed column name \<open>k\<close>; the values of a row are
  strings: the default is taken when the column is missing or its cell is empty.
\<close>

definition strOr :: "string option \<Rightarrow> string \<Rightarrow> string" where
  "strOr x d = (case x of None \<Rightarrow> d | Some s \<Rightarrow> if s = [] then d else s)"

subsection \<open>Objects used as dictionaries\<close>

text \<open>
  The names that an object created as \<^verbatim>\<open>{}\<close> or by \<^verbatim>\<open>JSON.parse\<close> answers without
  having them as own keys: the members of \<open>Object.prototype\<close>. All are functions, except
  \<^verbatim>\<open>__proto__\<close>, an accessor that reads as the prototype object itself; every one of
  them is truthy.
\<close>

definition objectPrototypeNames :: "string list" where
  "objectPrototypeNames =
     [''constructor'', ''__defineGetter__'', ''__defineSetter__'', ''hasOwnProperty'',
      ''__lookupGetter__'', ''__lookupSetter__'', ''isPrototypeOf'', ''propertyIsEnumerable'',
      ''toString'', ''valueOf'', ''__proto__'', ''toLocaleString'']"

text \<open>
  What \<^verbatim>\<open>dict[key]\<close> finds in a dictionary of the script: nothing (\<open>undefined\<close>), an entry
  the script has stored, or a value that is no entry, of which only the truthiness
  matters.
\<close>

datatype 'a slot = Missing | Own 'a | Foreign bool

definition inheritedSlot :: "string \<Rightarrow> 'a slot" where
  "inheritedSlot k = (if k \<in> set objectPrototypeNames then Foreign True else Missing)"

text \<open>\<^verbatim>\<open>props[key]\<close> for a key that is not fixed, on an object read from JSON.\<close>

definition objGet :: "props \<Rightarrow> string \<Rightarrow> jsval" where
  "objGet p k =
     (case p k of
        Some v \<Rightarrow> v
      | None \<Rightarrow> if k \<in> set objectPrototypeNames then JInherited k else JUndefined)"

subsection \<open>Strings\<close>

text \<open>
  The white space and line terminator characters that \<^verbatim>\<open>trim\<close>, \<^verbatim>\<open>parseInt\<close> and
  \<^verbatim>\<open>parseFloat\<close> skip, in UTF-8: tab, line feed, vertical tab, form feed, carriage
  return, space, U+00A0, U+1680, U+2000 to U+200A, U+2028, U+2029, U+202F, U+205F,
  U+3000 and U+FEFF.
\<close>

definition whiteSpace :: "string list" where
  "whiteSpace =
     [[CHR 0x09], [CHR 0x0A], [CHR 0x0B], [CHR 0x0C], [CHR 0x0D], [CHR 0x20],
      [CHR 0xC2, CHR 0xA0],
      [CHR 0xE1, CHR 0x9A, CHR 0x80],
      [CHR 0xE2, CHR 0x80, CHR 0x80], [CHR 0xE2, CHR 0x80, CHR 0x81],
      [CHR 0xE2, CHR 0x80, CHR 0x82], [CHR 0xE2, CHR 0x80, CHR 0x83],
      [CHR 0xE2, CHR 0x80, CHR 0x84], [CHR 0xE2, CHR 0x80, CHR 0x85],
      [CHR 0xE2, CHR 0x80, CHR 0x86], [CHR 0xE2, CHR 0x80, CHR 0x87],
      [CHR 0xE2, CHR 0x80, CHR 0x88], [CHR 0xE2, CHR 0x80, CHR 0x89],
      [CHR 0xE2, CHR 0x80, CHR 0x8A],
      [CHR 0xE2, CHR 0x80, CHR 0xA8], [CHR 0xE2, CHR 0x80, CHR 0xA9],
      [CHR 0xE2, CHR 0x80, CHR 0xAF],
      [CHR 0xE2, CHR 0x81, CHR 0x9F],
      [CHR 0xE3, CHR 0x80, CHR 0x80],
      [CHR 0xEF, CHR 0xBB, CHR 0xBF]]"

text \<open>
  The rest of a string after one leading character out of a list of encodings, if it
  starts with one; and the string without all such leading characters.
\<close>

fun afterOne :: "string list \<Rightarrow> string \<Rightarrow> string option" where
  "afterOne [] s = None"
| "afterOne (w # ws) s =
     (if w \<noteq> [] \<and> take (length w) s = w then Some (drop (length w) s) else afterOne ws s)"

function dropAll :: "string list \<Rightarrow> string \<Rightarrow> string" where
  "dropAll ws s = (case afterOne ws s of None \<Rightarrow> s | Some rest \<Rightarrow> dropAll ws rest)"
  by pat_completeness auto
termination
proof (relation "measure (\<lambda>(ws, s). length s)")
  show "wf (measure (\<lambda>(ws, s). length s))" by simp
next
  fix ws :: "string list" and s rest :: string
  assume "afterOne ws s = Some rest"
  then have "length rest < length s"
  proof (induction ws)
    case Nil
    then show ?case by simp
  next
    case (Cons w ws)
    show ?case
    proof (cases "w \<noteq> [] \<and> take (length w) s = w")
      case True
      then have "length (take (length w) s) = length w" by simp
      then have "length w \<le> length s" by simp
      moreover from True have "length w \<noteq> 0" by simp
      moreover from True Cons.prems have "rest = drop (length w) s" by simp
      then have "length rest = length s - length w" by simp
      ultimately show ?thesis by arith
    next
      case False
      with Cons show ?thesis by auto
    qed
  qed
  then show "((ws, rest), (ws, s)) \<in> measure (\<lambda>(ws, s). length s)" by simp
qed

definition trimStart :: "string \<Rightarrow> string" where
  "trimStart s = dropAll whiteSpace s"

definition trim :: "string \<Rightarrow> string" where
  "trim s = rev (dropAll (map rev whiteSpace) (rev (dropAll whiteSpace s)))"

definition startsWith :: "string \<Rightarrow> string \<Rightarrow> bool" where
  "startsWith p s = (take (length p) s = p)"

subsection \<open>Numbers\<close>

text \<open>Rounding to the nearest integer, a tie going to the even one.\<close>

definition roundHalfEven :: "rat \<Rightarrow> int" where
  "roundHalfEven x =
     (let f = \<lfloor>x\<rfloor>; d = x - of_int f in
      if d < 1 / 2 then f else if 1 / 2 < d then f + 1 else if even f then f else f + 1)"

text \<open>
  The binary exponent of a positive number \<open>q\<close>, that is the \<open>e\<close> with
  \<open>2 ^ e \<le> q < 2 ^ (e + 1)\<close>, from the bit lengths of its numerator and denominator.
\<close>

definition binExp :: "rat \<Rightarrow> int" where
  "binExp q =
     (case quotient_of q of
        (a, b) \<Rightarrow> (let e = bitlen a - bitlen b in if power_int 2 e \<le> q then e else e - 1))"

text \<open>
  The double nearest to a number inside the range of the doubles. Around a number of
  binary exponent \<open>e\<close> the doubles are the multiples of \<open>2 ^ (e - 52)\<close> (53 significant
  bits); below \<open>2 ^ (- 1022)\<close> they are the multiples of \<open>2 ^ (- 1074)\<close>. A tie goes to
  the even multiple.
\<close>

definition nearestDouble :: "rat \<Rightarrow> rat" where
  "nearestDouble q =
     (if q = 0 then 0
      else (let u = power_int 2 (max (binExp \<bar>q\<bar>) (- 1022) - 52)
            in of_int (roundHalfEven (q / u)) * u))"

text \<open>
  The double for an exact result: a magnitude of at least \<open>2 ^ 1024 - 2 ^ 970\<close> (half
  a step above the largest double; the constant \<open>overflowBound\<close>, written out in
  decimal) rounds to an infinity, any other to the nearest double.
\<close>

definition overflowBound :: rat where
  "overflowBound = 179769313486231580793728971405303415079934132710037826936173778980444968292764750946649017977587207096330286416692887910946555547851940402630657488671505820681908902000708383676273854845817711531764475730270069855571366959622842914819860834936475292719074168444365510704342711559699508093042880177904174497792"

definition toDouble :: "rat \<Rightarrow> jsnum" where
  "toDouble q =
     (if overflowBound \<le> \<bar>q\<bar> then (if 0 < q then PInf else NInf)
      else Fin (nearestDouble q))"

definition digitVal :: "char \<Rightarrow> int option" where
  "digitVal c = (let n = (of_char c :: int) in
     if 48 \<le> n \<and> n \<le> 57 then Some (n - 48) else None)"

definition hexVal :: "char \<Rightarrow> int option" where
  "hexVal c = (let n = (of_char c :: int) in
     if 48 \<le> n \<and> n \<le> 57 then Some (n - 48)
     else if 97 \<le> n \<and> n \<le> 102 then Some (n - 87)
     else if 65 \<le> n \<and> n \<le> 70 then Some (n - 55)
     else None)"

definition isDigit :: "char \<Rightarrow> bool" where
  "isDigit c = (digitVal c \<noteq> None)"

text \<open>The value of a digit string in radix \<open>r\<close>, most significant digit first.\<close>

definition radixVal :: "int \<Rightarrow> int list \<Rightarrow> int" where
  "radixVal r ds = foldl (\<lambda>acc d. acc * r + d) 0 ds"

definition leadingDigits :: "(char \<Rightarrow> int option) \<Rightarrow> string \<Rightarrow> int list" where
  "leadingDigits dv s = map (\<lambda>c. the (dv c)) (takeWhile (\<lambda>c. dv c \<noteq> None) s)"

text \<open>
  \<^verbatim>\<open>parseInt(s)\<close> without a radix: leading whitespace, an optional sign, an optional
  \<^verbatim>\<open>0x\<close> prefix, then the longest run of digits; \<open>NaN\<close> when there is no digit.
\<close>

definition parseInt :: "string \<Rightarrow> jsnum" where
  "parseInt str =
    (let s = trimStart str;
         neg = (case s of [] \<Rightarrow> False | c # _ \<Rightarrow> c = CHR ''-'');
         s1 = (case s of [] \<Rightarrow> [] | c # cs \<Rightarrow> if c = CHR ''+'' \<or> c = CHR ''-'' then cs else s);
         hex = (take 2 s1 = ''0x'' \<or> take 2 s1 = ''0X'');
         ds = (if hex then leadingDigits hexVal (drop 2 s1) else leadingDigits digitVal s1);
         v = radixVal (if hex then 16 else 10) ds
     in if ds = [] then NaN else toDouble (of_int (if neg then - v else v)))"

text \<open>\<^verbatim>\<open>a > b\<close> on numbers: false as soon as one side is \<open>NaN\<close>.\<close>

fun numGt :: "jsnum \<Rightarrow> jsnum \<Rightarrow> bool" where
  "numGt NaN _ = False"
| "numGt _ NaN = False"
| "numGt (Fin a) (Fin b) = (b < a)"
| "numGt (Fin a) y = (y = NInf)"
| "numGt PInf y = (y \<noteq> PInf)"
| "numGt NInf _ = False"

text \<open>The exponent part \<^verbatim>\<open>e[+-]digits\<close> of a decimal literal, \<open>0\<close> when there is none.\<close>

definition exponentPart :: "string \<Rightarrow> int" where
  "exponentPart r =
    (case r of
       [] \<Rightarrow> 0
     | c # cs \<Rightarrow>
         if c = CHR ''e'' \<or> c = CHR ''E'' then
           (let neg = (case cs of [] \<Rightarrow> False | d # _ \<Rightarrow> d = CHR ''-'');
                ds = (case cs of [] \<Rightarrow> [] | d # t \<Rightarrow> if d = CHR ''+'' \<or> d = CHR ''-'' then t else cs);
                v = radixVal 10 (leadingDigits digitVal ds)
            in if neg then - v else v)
         else 0)"

definition scale10 :: "rat \<Rightarrow> int \<Rightarrow> rat" where
  "scale10 q e = (if 0 \<le> e then q * 10 ^ nat e else q / 10 ^ nat (- e))"

text \<open>
  \<^verbatim>\<open>parseFloat(s)\<close>: leading whitespace, an optional sign, then \<^verbatim>\<open>Infinity\<close> or the
  longest decimal literal (digits, an optional fraction, an optional exponent); \<open>NaN\<close>
  when there is no digit.
\<close>

definition parseFloat :: "string \<Rightarrow> jsnum" where
  "parseFloat str =
    (let s = trimStart str;
         neg = (case s of [] \<Rightarrow> False | c # _ \<Rightarrow> c = CHR ''-'');
         s1 = (case s of [] \<Rightarrow> [] | c # cs \<Rightarrow> if c = CHR ''+'' \<or> c = CHR ''-'' then cs else s)
     in if startsWith ''Infinity'' s1 then (if neg then NInf else PInf)
        else
          (let ip = leadingDigits digitVal s1;
               r1 = dropWhile isDigit s1;
               dot = (case r1 of [] \<Rightarrow> False | c # _ \<Rightarrow> c = CHR ''.'');
               fp = (if dot then leadingDigits digitVal (tl r1) else []);
               r2 = (if dot then dropWhile isDigit (tl r1) else r1);
               m = of_int (radixVal 10 (ip @ fp)) / 10 ^ length fp;
               v = scale10 m (exponentPart r2)
           in if ip = [] \<and> fp = [] then NaN else toDouble (if neg then - v else v)))"

text \<open>\<^verbatim>\<open>Math.round\<close> rounds halves up; \<^verbatim>\<open>Math.floor\<close>; \<^verbatim>\<open>Math.min\<close>.\<close>

fun mathRound :: "jsnum \<Rightarrow> jsnum" where
  "mathRound (Fin q) = Fin (of_int \<lfloor>q + 1 / 2\<rfloor>)"
| "mathRound x = x"

fun mathFloor :: "jsnum \<Rightarrow> jsnum" where
  "mathFloor (Fin q) = Fin (of_int \<lfloor>q\<rfloor>)"
| "mathFloor x = x"

fun mathMin :: "jsnum \<Rightarrow> jsnum \<Rightarrow> jsnum" where
  "mathMin NaN _ = NaN"
| "mathMin _ NaN = NaN"
| "mathMin NInf _ = NInf"
| "mathMin _ NInf = NInf"
| "mathMin PInf y = y"
| "mathMin x PInf = x"
| "mathMin (Fin a) (Fin b) = Fin (min a b)"

text \<open>
  \<^verbatim>\<open>a / b\<close> and \<^verbatim>\<open>a * b\<close>. Since \<open>-0\<close> is not represented, a zero divisor is taken as
  \<open>+0\<close>; the pipeline never divides by zero (see \<open>recordArea\<close> below).
\<close>

fun jsdiv :: "jsnum \<Rightarrow> jsnum \<Rightarrow> jsnum" where
  "jsdiv NaN _ = NaN"
| "jsdiv _ NaN = NaN"
| "jsdiv (Fin a) (Fin b) =
     (if b \<noteq> 0 then toDouble (a / b) else if a = 0 then NaN else if 0 < a then PInf else NInf)"
| "jsdiv (Fin a) _ = Fin 0"
| "jsdiv PInf (Fin b) = (if 0 \<le> b then PInf else NInf)"
| "jsdiv NInf (Fin b) = (if 0 \<le> b then NInf else PInf)"
| "jsdiv _ _ = NaN"

fun jsmul :: "jsnum \<Rightarrow> jsnum \<Rightarrow> jsnum" where
  "jsmul NaN _ = NaN"
| "jsmul _ NaN = NaN"
| "jsmul (Fin a) (Fin b) = toDouble (a * b)"
| "jsmul (Fin a) PInf = (if a = 0 then NaN else if 0 < a then PInf else NInf)"
| "jsmul (Fin a) NInf = (if a = 0 then NaN else if 0 < a then NInf else PInf)"
| "jsmul PInf (Fin b) = (if b = 0 then NaN else if 0 < b then PInf else NInf)"
| "jsmul NInf (Fin b) = (if b = 0 then NaN else if 0 < b then NInf else PInf)"
| "jsmul PInf PInf = PInf"
| "jsmul NInf NInf = PInf"
| "jsmul _ _ = NInf"

text \<open>\<^verbatim>\<open>x > 0\<close> and \<^verbatim>\<open>isNaN(x)\<close> on numbers.\<close>

fun numGtZero :: "jsnum \<Rightarrow> bool" where
  "numGtZero (Fin q) = (0 < q)"
| "numGtZero PInf = True"
| "numGtZero _ = False"

fun numIsNaN :: "jsnum \<Rightarrow> bool" where
  "numIsNaN NaN = True"
| "numIsNaN _ = False"

section \<open>Build-time pipeline: \<^verbatim>\<open>scripts/enrich-geojson.js\<close>\<close>

subsection \<open>Record deduplicator: \<^verbatim>\<open>getLatestData\<close>\<close>

text \<open>
  The dictionary \<^verbatim>\<open>latestByKey\<close> is created as \<^verbatim>\<open>{}\<close> and filled by
  \<^verbatim>\<open>latestByKey[key] = row\<close>. It is held as the map of the rows assigned; the assignment
  under the key \<^verbatim>\<open>__proto__\<close> creates no own key but makes the row the dictionary's
  prototype, and the map holds that row under this key.

  \<^verbatim>\<open>latestByKey[key]\<close>: the row assigned under the key; otherwise the cell that the
  prototype row (if one was installed) has under that name, a string; otherwise the
  member of \<open>Object.prototype\<close> of that name.
\<close>

definition latestGet :: "(string \<rightharpoonup> row) \<Rightarrow> string \<Rightarrow> row slot" where
  "latestGet latestByKey key =
    (case latestByKey key of
       Some r \<Rightarrow> Own r
     | None \<Rightarrow>
         (case latestByKey ''__proto__'' of
            None \<Rightarrow> inheritedSlot key
          | Some p \<Rightarrow> (case p key of None \<Rightarrow> inheritedSlot key | Some s \<Rightarrow> Foreign (s \<noteq> []))))"

text \<open>
  One step of the \<^verbatim>\<open>forEach\<close>: a row without a key is skipped; a row is stored when
  \<^verbatim>\<open>latestByKey[key]\<close> is falsy, or when its year is greater than
  \<^verbatim>\<open>parseInt(latestByKey[key].year || '0')\<close>, the year of the stored row (for a truthy
  value that is no row, \<^verbatim>\<open>.year\<close> is \<open>undefined\<close> and the year compared with is 0).
\<close>

definition rowYear :: "row \<Rightarrow> jsnum" where
  "rowYear r = parseInt (strOr (r ''year'') ''0'')"

definition latestStep :: "string \<Rightarrow> (string \<rightharpoonup> row) \<Rightarrow> row \<Rightarrow> (string \<rightharpoonup> row)" where
  "latestStep joinKey latestByKey r =
    (let key = strOr (r joinKey) [] in
     if key = [] then latestByKey
     else (case latestGet latestByKey key of
             Missing \<Rightarrow> latestByKey(key \<mapsto> r)
           | Foreign t \<Rightarrow>
               if \<not> t \<or> numGt (rowYear r) (parseInt ''0'') then latestByKey(key \<mapsto> r)
               else latestByKey
           | Own best \<Rightarrow>
               if numGt (rowYear r) (rowYear best) then latestByKey(key \<mapsto> r) else latestByKey))"

definition getLatestData :: "row list \<Rightarrow> string \<Rightarrow> (string \<rightharpoonup> row)" where
  "getLatestData csvData joinKey = foldl (latestStep joinKey) Map.empty csvData"

subsection \<open>Tabular record loader: \<^verbatim>\<open>parseCSV\<close>\<close>

text \<open>\<^verbatim>\<open>content.split('\n')\<close>.\<close>

fun splitOn :: "char \<Rightarrow> string \<Rightarrow> string list" where
  "splitOn d [] = [[]]"
| "splitOn d (c # cs) =
     (if c = d then [] # splitOn d cs
      else (case splitOn d cs of [] \<Rightarrow> [[c]] | x # xs \<Rightarrow> (c # x) # xs))"

text \<open>
  The character loop shared by the header and the data rows: a double quote toggles
  \<open>inQuotes\<close> and is not kept, a comma outside quotes closes the current field, any other
  character is appended. After the loop a last field is pushed only when it is non-empty.
\<close>

fun scanFields :: "string \<Rightarrow> bool \<Rightarrow> string \<Rightarrow> string list \<Rightarrow> string list" where
  "scanFields [] inQuotes current acc = (if current \<noteq> [] then acc @ [trim current] else acc)"
| "scanFields (c # cs) inQuotes current acc =
     (if c = CHR 0x22 then scanFields cs (\<not> inQuotes) current acc
      else if c = CHR '','' \<and> \<not> inQuotes then scanFields cs inQuotes [] (acc @ [trim current])
      else scanFields cs inQuotes (current @ [c]) acc)"

definition splitFields :: "string \<Rightarrow> string list" where
  "splitFields line = scanFields line False [] []"

text \<open>\<^verbatim>\<open>values[index] || ''\<close>: an index out of range reads as \<open>undefined\<close>.\<close>

definition cell :: "string list \<Rightarrow> nat \<Rightarrow> string" where
  "cell values i = (if i < length values then values ! i else [])"

text \<open>
  \<^verbatim>\<open>headers.forEach((header, index) => { row[header] = values[index] || ''; })\<close> on
  \<^verbatim>\<open>row = {}\<close>. The assignment of a string under the name \<^verbatim>\<open>__proto__\<close> has no
  effect.
\<close>

definition rowOf :: "string list \<Rightarrow> string list \<Rightarrow> row" where
  "rowOf headers values =
     foldl (\<lambda>r (index, header). if header = ''__proto__'' then r else r(header \<mapsto> cell values index))
       Map.empty (enumerate 0 headers)"

text \<open>The body of the loop over the data lines: \<open>None\<close> when the line yields no row.\<close>

definition parseRow :: "string list \<Rightarrow> string \<Rightarrow> row option" where
  "parseRow headers line =
    (if trim line = [] \<or> startsWith ''state,district'' line then None
     else (let values = splitFields line in
           if length headers \<le> length values \<and> cell values 0 \<noteq> [] \<and> cell values 0 \<noteq> ''state''
           then Some (rowOf headers values)
           else None))"

definition csvLines :: "string \<Rightarrow> string list" where
  "csvLines content =
     filter (\<lambda>line. trim line \<noteq> [] \<and> \<not> startsWith '',,,,'' line) (splitOn (CHR 0x0A) content)"

definition parseCSV :: "string \<Rightarrow> row list" where
  "parseCSV content =
    (case csvLines content of
       [] \<Rightarrow> []
     | headerLine # dataLines \<Rightarrow> List.map_filter (parseRow (splitFields headerLine)) dataLines)"

subsection \<open>Income table: the \<^verbatim>\<open>incomeCsvData.forEach\<close> of \<^verbatim>\<open>enrichGeoJSON\<close>\<close>

text \<open>
  The dictionary \<^verbatim>\<open>incomeData\<close> is created as \<^verbatim>\<open>{}\<close> and filled by
  \<^verbatim>\<open>incomeData[area] = Math.round(income)\<close>; it is held as the map of the numbers
  assigned. The assignment of a number under the name \<^verbatim>\<open>__proto__\<close> has no effect.

  \<^verbatim>\<open>incomeData[area]\<close>: the number assigned under the name, otherwise the member of
  \<open>Object.prototype\<close> of that name; and the same read as a condition.
\<close>

definition incomeSet :: "(string \<rightharpoonup> jsnum) \<Rightarrow> string \<Rightarrow> jsnum \<Rightarrow> (string \<rightharpoonup> jsnum)" where
  "incomeSet incomeData area v = (if area = ''__proto__'' then incomeData else incomeData(area \<mapsto> v))"

definition incomeGet :: "(string \<rightharpoonup> jsnum) \<Rightarrow> string \<Rightarrow> jsnum slot" where
  "incomeGet incomeData area =
    (if area = ''__proto__'' then Foreign True
     else (case incomeData area of Some v \<Rightarrow> Own v | None \<Rightarrow> inheritedSlot area))"

definition hasIncome :: "(string \<rightharpoonup> jsnum) \<Rightarrow> string \<Rightarrow> bool" where
  "hasIncome incomeData area =
    (case incomeGet incomeData area of Missing \<Rightarrow> False | Own v \<Rightarrow> truthyNum v | Foreign t \<Rightarrow> t)"

text \<open>The three values read from an income row.\<close>

definition incomeAreaType :: "row \<Rightarrow> string" where
  "incomeAreaType r = trim (strOr (r ''area_type'') [])"

definition incomeArea :: "row \<Rightarrow> string" where
  "incomeArea r = trim (strOr (r ''area'') [])"

definition incomeMean :: "row \<Rightarrow> string" where
  "incomeMean r = strOr (r ''income_mean'') (strOr (r ''income_avg'') [])"

definition incomeStep :: "(string \<rightharpoonup> jsnum) \<Rightarrow> row \<Rightarrow> (string \<rightharpoonup> jsnum)" where
  "incomeStep incomeData r =
    (if incomeArea r \<noteq> [] \<and> incomeMean r \<noteq> [] then
       (let income = parseFloat (incomeMean r) in
        if \<not> numIsNaN income \<and> numGtZero income then
          (if incomeAreaType r = ''district'' then
             incomeSet incomeData (incomeArea r) (mathRound income)
           else if incomeAreaType r = ''state'' \<and> \<not> hasIncome incomeData (incomeArea r) then
             incomeSet incomeData (incomeArea r) (mathRound income)
           else incomeData)
        else incomeData)
     else incomeData)"

definition buildIncomeData :: "row list \<Rightarrow> (string \<rightharpoonup> jsnum)" where
  "buildIncomeData incomeCsvData = foldl incomeStep Map.empty incomeCsvData"

subsection \<open>Key resolver\<close>

text \<open>
  A property value used as an object key is converted to a string. The conversion of a
  number (\<^verbatim>\<open>Number::toString\<close>, the shortest decimal that reads back as the same double)
  is not modelled: it is the parameter \<open>numStr\<close>, and every result below holds for any
  such function. An inherited member converts to the text of a native function, the
  prototype object to \<^verbatim>\<open>[object Object]\<close>.
\<close>

definition toKey :: "(jsnum \<Rightarrow> string) \<Rightarrow> jsval \<Rightarrow> string" where
  "toKey numStr v =
    (case v of
       JStr s \<Rightarrow> s
     | JNum n \<Rightarrow> numStr n
     | JBool b \<Rightarrow> (if b then ''true'' else ''false'')
     | JNull \<Rightarrow> ''null''
     | JUndefined \<Rightarrow> ''undefined''
     | JInherited k \<Rightarrow>
         (if k = ''__proto__'' then ''[object Object]''
          else ''function '' @ k @ ''() { [native code] }''))"

text \<open>
  An instance of \<open>numStr\<close> for the concrete examples: it is \<^verbatim>\<open>Number::toString\<close> on the
  integers (below \<open>10\<^sup>2\<^sup>1\<close>, where JavaScript switches to exponent notation) and on the
  three special values.
\<close>

fun natDigits :: "nat \<Rightarrow> string" where
  "natDigits n =
     (if n < 10 then [char_of (48 + n)] else natDigits (n div 10) @ [char_of (48 + n mod 10)])"

definition integerString :: "jsnum \<Rightarrow> string" where
  "integerString x =
    (case x of
       NaN \<Rightarrow> ''NaN''
     | PInf \<Rightarrow> ''Infinity''
     | NInf \<Rightarrow> ''-Infinity''
     | Fin q \<Rightarrow> (if q < 0 then ''-'' else []) @ natDigits (nat \<bar>\<lfloor>q\<rfloor>\<bar>))"

definition resolveJoinKey :: "string \<Rightarrow> props \<Rightarrow> jsval" where
  "resolveJoinKey boundaryType props =
    (if boundaryType = ''district'' then
       jsor (getProp props ''code_state_district'') (getProp props ''code'')
     else if boundaryType = ''parliament'' then
       jsor (getProp props ''code_parlimen'') (getProp props ''code'')
     else if boundaryType = ''dun'' then
       jsor (jsor (getProp props ''code_state_dun'') (getProp props ''code_dun''))
            (getProp props ''code'')
     else
       jsor (jsor (jsor (jsor (getProp props ''code_state_district'')
                              (getProp props ''code_parlimen''))
                        (getProp props ''code_state_dun''))
                  (getProp props ''code_dun''))
            (getProp props ''code''))"

text \<open>
  \<^verbatim>\<open>joinKey && latestData[joinKey]\<close>: the matched record \<^verbatim>\<open>demoData\<close>, if any. A
  truthy value that is no row (an inherited member, or a non-empty cell of a prototype
  row) passes the test as well; every column the writer then reads from it is
  \<open>undefined\<close>, as for a row without columns.
\<close>

definition matchedRecord ::
  "(jsnum \<Rightarrow> string) \<Rightarrow> (string \<rightharpoonup> row) \<Rightarrow> jsval \<Rightarrow> row option" where
  "matchedRecord numStr latestData joinKey =
     (if truthy joinKey then
        (case latestGet latestData (toKey numStr joinKey) of
           Own demoData \<Rightarrow> Some demoData
         | Foreign t \<Rightarrow> if t then Some Map.empty else None
         | Missing \<Rightarrow> None)
      else None)"

subsection \<open>Metric calculator\<close>

text \<open>\<^verbatim>\<open>parseInt(demoData.population_total || demoData.population || '0') || 0\<close>.\<close>

definition recordPop :: "row \<Rightarrow> jsnum" where
  "recordPop demoData =
     numOr (parseInt (strOr (demoData ''population_total'')
                            (strOr (demoData ''population'') ''0'')))
           (Fin 0)"

text \<open>\<^verbatim>\<open>parseFloat((demoData.area_km2 || '1').replace(/,/g, ''))\<close>, and the area: that value
  \<^verbatim>\<open>|| 1\<close>.\<close>

definition parsedArea :: "row \<Rightarrow> jsnum" where
  "parsedArea demoData =
     parseFloat (filter (\<lambda>c. c \<noteq> CHR '','') (strOr (demoData ''area_km2'') ''1''))"

definition recordArea :: "row \<Rightarrow> jsnum" where
  "recordArea demoData = numOr (parsedArea demoData) (Fin 1)"

definition density :: "row \<Rightarrow> jsnum" where
  "density demoData = jsdiv (recordPop demoData) (recordArea demoData)"

definition calculatedNightLights :: "row \<Rightarrow> jsnum" where
  "calculatedNightLights demoData =
     mathMin (mathRound (jsmul (jsdiv (density demoData) (Fin 500)) (Fin 50))) (Fin 100)"

definition calculatedScore :: "row \<Rightarrow> jsnum" where
  "calculatedScore demoData =
     mathMin (mathRound (jsmul (jsdiv (density demoData) (Fin 1000)) (Fin 50))) (Fin 100)"

text \<open>\<^verbatim>\<open>Math.floor((parseInt(demoData.population_total || '0') || 0) / d)\<close>.\<close>

definition populationShare :: "row \<Rightarrow> rat \<Rightarrow> jsnum" where
  "populationShare demoData d =
     mathFloor (jsdiv (numOr (parseInt (strOr (demoData ''population_total'') ''0'')) (Fin 0))
                      (Fin d))"

subsection \<open>Income joiner: the \<^verbatim>\<open>avg_income\<close> expression\<close>

text \<open>\<^verbatim>\<open>incomeData[area]\<close> read as the value to return.\<close>

definition incomeAt :: "(string \<rightharpoonup> jsnum) \<Rightarrow> string \<Rightarrow> jsval" where
  "incomeAt incomeData area =
    (case incomeGet incomeData area of
       Own v \<Rightarrow> JNum v
     | Foreign t \<Rightarrow> JInherited area
     | Missing \<Rightarrow> JUndefined)"

definition avg_income ::
  "(jsnum \<Rightarrow> string) \<Rightarrow> string \<Rightarrow> (string \<rightharpoonup> jsnum) \<Rightarrow> props \<Rightarrow> row \<Rightarrow> jsval" where
  "avg_income numStr boundaryType incomeData props demoData =
    (if strOr (demoData ''income_avg'') [] \<noteq> [] then
       JNum (mathRound (numOr (parseFloat (strOr (demoData ''income_avg'') [])) (Fin 0)))
     else if boundaryType = ''district'' then
       (let districtName = jsor (getProp props ''district'') (getProp props ''name'') in
        if truthy districtName \<and> hasIncome incomeData (toKey numStr districtName) then
          incomeAt incomeData (toKey numStr districtName)
        else if truthy (getProp props ''state'')
                \<and> hasIncome incomeData (toKey numStr (getProp props ''state'')) then
          incomeAt incomeData (toKey numStr (getProp props ''state''))
        else JNum (Fin 0))
     else JNum (Fin 0))"

subsection \<open>Enrichment writer: the \<^verbatim>\<open>geojson.features.forEach\<close> of \<^verbatim>\<open>enrichGeoJSON\<close>\<close>

definition featureId :: "props \<Rightarrow> jsval" where
  "featureId props =
     jsor (jsor (jsor (jsor (jsor (getProp props ''code_state_district'')
                                  (getProp props ''code_parlimen''))
                            (getProp props ''code_state_dun''))
                      (getProp props ''code_dun''))
                (getProp props ''id''))
          (JStr [])"

definition featureName :: "props \<Rightarrow> jsval" where
  "featureName props =
     jsor (jsor (jsor (jsor (getProp props ''district'') (getProp props ''parlimen''))
                      (getProp props ''dun''))
                (getProp props ''name''))
          (JStr ''Unknown'')"

definition enrichedProps ::
  "(jsnum \<Rightarrow> string) \<Rightarrow> string \<Rightarrow> (string \<rightharpoonup> jsnum) \<Rightarrow> props \<Rightarrow> row \<Rightarrow> props" where
  "enrichedProps numStr boundaryType incomeData props demoData =
     props(''id'' \<mapsto> featureId props,
           ''name'' \<mapsto> featureName props,
           ''population'' \<mapsto> JNum (recordPop demoData),
           ''avg_income'' \<mapsto> avg_income numStr boundaryType incomeData props demoData,
           ''competitors'' \<mapsto>
              jsor (getProp props ''competitors'') (JNum (populationShare demoData 5000)),
           ''public_services'' \<mapsto>
              jsor (getProp props ''public_services'') (JNum (populationShare demoData 10000)),
           ''site_suitability_score'' \<mapsto>
              jsor (getProp props ''site_suitability_score'') (JNum (calculatedScore demoData)),
           ''night_lights'' \<mapsto>
              jsor (getProp props ''night_lights'') (JNum (calculatedNightLights demoData)),
           ''hasCensusData'' \<mapsto> JBool True)"

definition missingProps :: "props \<Rightarrow> props" where
  "missingProps props =
     props(''id'' \<mapsto> featureId props,
           ''name'' \<mapsto> featureName props,
           ''population'' \<mapsto> JNum (Fin 0),
           ''avg_income'' \<mapsto> JNum (Fin 0),
           ''competitors'' \<mapsto> JNum (Fin 0),
           ''public_services'' \<mapsto> JNum (Fin 0),
           ''site_suitability_score'' \<mapsto> JNum (Fin 0),
           ''night_lights'' \<mapsto> JNum (Fin 0),
           ''hasCensusData'' \<mapsto> JBool False)"

text \<open>The new \<^verbatim>\<open>feature.properties\<close> computed from \<^verbatim>\<open>props = feature.properties || {}\<close>.\<close>

definition enrichProps ::
  "(jsnum \<Rightarrow> string) \<Rightarrow> string \<Rightarrow> (string \<rightharpoonup> row) \<Rightarrow> (string \<rightharpoonup> jsnum) \<Rightarrow> props \<Rightarrow> props" where
  "enrichProps numStr boundaryType latestData incomeData props =
    (case matchedRecord numStr latestData (resolveJoinKey boundaryType props) of
       Some demoData \<Rightarrow> enrichedProps numStr boundaryType incomeData props demoData
     | None \<Rightarrow> missingProps props)"

text \<open>
  A feature: its geometry (a type tag and nested coordinate arrays; an object, as the
  \<^verbatim>\<open>Feature\<close> type of the transformer's signature has it), its properties (\<open>None\<close> is
  \<^verbatim>\<open>null\<close>, which GeoJSON and that type allow) and its other members.
\<close>

datatype coords = Coord rat | Coords "coords list"

record geom =
  gtype :: string
  coordinates :: coords

record feature =
  geometry :: geom
  properties :: "props option"
  members :: "string \<rightharpoonup> jsval"

text \<open>\<^verbatim>\<open>const props = feature.properties || {}\<close>.\<close>

definition sourceProps :: "feature \<Rightarrow> props" where
  "sourceProps f = (case properties f of None \<Rightarrow> Map.empty | Some props \<Rightarrow> props)"

definition enrichFeature ::
  "(jsnum \<Rightarrow> string) \<Rightarrow> string \<Rightarrow> (string \<rightharpoonup> row) \<Rightarrow> (string \<rightharpoonup> jsnum) \<Rightarrow> feature \<Rightarrow> feature" where
  "enrichFeature numStr boundaryType latestData incomeData f =
     f\<lparr>properties :=
         Some (enrichProps numStr boundaryType latestData incomeData (sourceProps f))\<rparr>"

text \<open>
  \<^verbatim>\<open>CSV_MAPPINGS[boundaryType].joinKey\<close>, and the run of \<^verbatim>\<open>enrichGeoJSON\<close> on the
  contents of its files: the features of the boundary file, the census text (\<open>None\<close>
  when the file does not exist: the features are then written as they are) and the
  income text (\<open>None\<close> when the file does not exist; only the district configuration
  names one). An unknown boundary type ends the run without output (\<open>None\<close>).
\<close>

definition configJoinKey :: "string \<Rightarrow> string option" where
  "configJoinKey boundaryType =
    (if boundaryType = ''district'' then Some ''code_state_district''
     else if boundaryType = ''parliament'' then Some ''code_parlimen''
     else if boundaryType = ''dun'' then Some ''code_state_dun''
     else None)"

definition enrichGeoJSON ::
  "(jsnum \<Rightarrow> string) \<Rightarrow> string \<Rightarrow> string option \<Rightarrow> string option \<Rightarrow> feature list
     \<Rightarrow> feature list option" where
  "enrichGeoJSON numStr boundaryType csv incomeCsv fs =
    (case configJoinKey boundaryType of
       None \<Rightarrow> None
     | Some joinKey \<Rightarrow>
         (case csv of
            None \<Rightarrow> Some fs
          | Some censusText \<Rightarrow>
              (let latestData = getLatestData (parseCSV censusText) joinKey;
                   incomeData =
                     (case incomeCsv of
                        None \<Rightarrow> Map.empty
                      | Some incomeText \<Rightarrow>
                          if boundaryType = ''district'' then buildIncomeData (parseCSV incomeText)
                          else Map.empty)
               in Some (map (enrichFeature numStr boundaryType latestData incomeData) fs))))"

section \<open>Runtime transformer: \<^verbatim>\<open>services/dataTransformer.ts\<close>\<close>

datatype keys = Key string | Keys "string list"

record PropertyMapping =
  mapping_id :: "keys option"
  mapping_name :: "keys option"
  mapping_population :: "string option"
  mapping_avg_income :: "string option"
  mapping_competitors :: "string option"
  mapping_public_services :: "string option"
  mapping_site_suitability_score :: "string option"
  mapping_night_lights :: "string option"

text \<open>\<^verbatim>\<open>mapping.id || [...]\<close>: an empty string is falsy, an empty array is not.\<close>

definition keysOr :: "keys option \<Rightarrow> keys \<Rightarrow> keys" where
  "keysOr k d = (case k of None \<Rightarrow> d | Some (Key s) \<Rightarrow> if s = [] then d else Key s | Some (Keys ks) \<Rightarrow> Keys ks)"

text \<open>The \<^verbatim>\<open>for (const key of keyArray)\<close> loop of \<^verbatim>\<open>getValue\<close>.\<close>

fun firstPresent :: "props \<Rightarrow> string list \<Rightarrow> jsval option" where
  "firstPresent props [] = None"
| "firstPresent props (key # rest) =
     (if objGet props key \<noteq> JUndefined \<and> objGet props key \<noteq> JNull
      then Some (objGet props key)
      else firstPresent props rest)"

definition getValue :: "props \<Rightarrow> keys \<Rightarrow> jsval \<Rightarrow> jsval" where
  "getValue props ks defaultValue =
    (case ks of
       Key s \<Rightarrow>
         if s = [] then defaultValue
         else (case firstPresent props [s] of None \<Rightarrow> defaultValue | Some v \<Rightarrow> v)
     | Keys keyArray \<Rightarrow>
         (case firstPresent props keyArray of None \<Rightarrow> defaultValue | Some v \<Rightarrow> v))"

text \<open>
  What \<^verbatim>\<open>getNumeric\<close> can return: a number, or a boolean or \<^verbatim>\<open>null\<close> that passed the
  \<^verbatim>\<open>isNaN\<close> test unchanged (\<^verbatim>\<open>isNaN(true)\<close> and \<^verbatim>\<open>isNaN(null)\<close> are false). An
  inherited member converts to \<open>NaN\<close> and gives the default.
\<close>

datatype numeric = NumV jsnum | BoolV bool | NullV

definition getNumeric :: "props \<Rightarrow> string \<Rightarrow> jsnum \<Rightarrow> numeric" where
  "getNumeric props key defaultValue =
    (case getValue props (Key key) (JNum defaultValue) of
       JStr s \<Rightarrow> (if numIsNaN (parseFloat s) then NumV defaultValue else NumV (parseFloat s))
     | JNum n \<Rightarrow> (if numIsNaN n then NumV defaultValue else NumV n)
     | JBool b \<Rightarrow> BoolV b
     | JNull \<Rightarrow> NullV
     | JUndefined \<Rightarrow> NumV defaultValue
     | JInherited k \<Rightarrow> NumV defaultValue)"

text \<open>\<^verbatim>\<open>x > 0\<close> on such a value: \<^verbatim>\<open>true\<close> compares as 1, \<^verbatim>\<open>false\<close> and \<^verbatim>\<open>null\<close> as 0.\<close>

fun gtZero :: "numeric \<Rightarrow> bool" where
  "gtZero (NumV n) = numGtZero n"
| "gtZero (BoolV b) = b"
| "gtZero NullV = False"

definition hasCensusData :: "props \<Rightarrow> PropertyMapping \<Rightarrow> bool" where
  "hasCensusData props mapping =
    (if getProp props ''hasCensusData'' \<noteq> JUndefined then truthy (getProp props ''hasCensusData'')
     else (let population = getNumeric props (strOr (mapping_population mapping) ''population'') (Fin 0);
               avgIncome = getNumeric props (strOr (mapping_avg_income mapping) ''avg_income'') (Fin 0)
           in gtZero population \<or> gtZero avgIncome))"

record DistrictProperties =
  dp_id :: jsval
  dp_name :: jsval
  dp_population :: numeric
  dp_avg_income :: numeric
  dp_competitors :: numeric
  dp_public_services :: numeric
  dp_site_suitability_score :: numeric
  dp_night_lights :: numeric
  dp_hasCensusData :: bool

definition transformedProps :: "props \<Rightarrow> PropertyMapping \<Rightarrow> DistrictProperties" where
  "transformedProps props mapping =
    \<lparr> dp_id = getValue props
               (keysOr (mapping_id mapping) (Keys [''id'', ''ID'', ''district_id'', ''code''])) (JStr []),
      dp_name = getValue props
               (keysOr (mapping_name mapping) (Keys [''name'', ''NAME'', ''district_name'', ''label'']))
               (JStr ''Unknown''),
      dp_population = getNumeric props (strOr (mapping_population mapping) ''population'') (Fin 0),
      dp_avg_income = getNumeric props (strOr (mapping_avg_income mapping) ''avg_income'') (Fin 0),
      dp_competitors = getNumeric props (strOr (mapping_competitors mapping) ''competitors'') (Fin 0),
      dp_public_services =
        getNumeric props (strOr (mapping_public_services mapping) ''public_services'') (Fin 0),
      dp_site_suitability_score =
        getNumeric props (strOr (mapping_site_suitability_score mapping) ''site_suitability_score'')
          (Fin 0),
      dp_night_lights = getNumeric props (strOr (mapping_night_lights mapping) ''night_lights'') (Fin 0),
      dp_hasCensusData = hasCensusData props mapping \<rparr>"

text \<open>
  \<^verbatim>\<open>transformFeature\<close>. Reading a key of \<^verbatim>\<open>null\<close> properties raises a \<^verbatim>\<open>TypeError\<close>
  (the numeric fields always read one key), before the geometry is looked at; an
  unsupported geometry type raises the error that carries it.
\<close>

datatype error = TypeError | UnsupportedGeometry string

record district_feature =
  df_geometry :: geom
  df_properties :: DistrictProperties
  df_members :: "string \<rightharpoonup> jsval"

definition transformFeature :: "feature \<Rightarrow> PropertyMapping \<Rightarrow> error + district_feature" where
  "transformFeature f mapping =
    (case properties f of
       None \<Rightarrow> Inl TypeError
     | Some props \<Rightarrow>
         if gtype (geometry f) \<noteq> ''Polygon'' \<and> gtype (geometry f) \<noteq> ''MultiPolygon''
         then Inl (UnsupportedGeometry (gtype (geometry f)))
         else Inr \<lparr> df_geometry = geometry f,
                    df_properties = transformedProps props mapping,
                    df_members = members f \<rparr>)"

text \<open>\<^verbatim>\<open>features.map(...)\<close> with a callback that may throw: the first error ends the call.\<close>

fun mapResult :: "('a \<Rightarrow> error + 'b) \<Rightarrow> 'a list \<Rightarrow> error + 'b list" where
  "mapResult g [] = Inr []"
| "mapResult g (x # xs) =
     (case g x of
        Inl e \<Rightarrow> Inl e
      | Inr y \<Rightarrow> (case mapResult g xs of Inl e \<Rightarrow> Inl e | Inr ys \<Rightarrow> Inr (y # ys)))"

record feature_collection =
  features :: "feature list"
  fc_members :: "string \<rightharpoonup> jsval"

record district_collection =
  dc_features :: "district_feature list"
  dc_members :: "string \<rightharpoonup> jsval"

definition transformToDistrictFeatures ::
  "feature_collection \<Rightarrow> PropertyMapping \<Rightarrow> error + district_collection" where
  "transformToDistrictFeatures data mapping =
    (case mapResult (\<lambda>f. transformFeature f mapping) (features data) of
       Inl e \<Rightarrow> Inl e
     | Inr fs \<Rightarrow> Inr \<lparr> dc_features = fs, dc_members = fc_members data \<rparr>)"

section \<open>Vocabulary of the statements\<close>

text \<open>
  The key of a census row for a key column (empty when missing), and its year in the
  reading of the specification: the parsed year, 0 when it is missing or unparsable.
\<close>

definition rowKey :: "string \<Rightarrow> row \<Rightarrow> string" where
  "rowKey joinKey r = strOr (r joinKey) []"

definition yearOrZero :: "row \<Rightarrow> rat" where
  "yearOrZero r = (case rowYear r of Fin y \<Rightarrow> y | _ \<Rightarrow> 0)"

text \<open>A key that is not the name of a member of \<open>Object.prototype\<close>.\<close>

definition ordinaryKey :: "string \<Rightarrow> bool" where
  "ordinaryKey k = (k \<notin> set objectPrototypeNames)"

text \<open>\<^verbatim>\<open>x < 0\<close> on numbers.\<close>

fun numLtZero :: "jsnum \<Rightarrow> bool" where
  "numLtZero (Fin q) = (q < 0)"
| "numLtZero NInf = True"
| "numLtZero _ = False"

text \<open>A number that is not negative (and not \<open>NaN\<close>); one that is also finite.\<close>

fun notNegative :: "jsnum \<Rightarrow> bool" where
  "notNegative (Fin q) = (0 \<le> q)"
| "notNegative PInf = True"
| "notNegative _ = False"





text \<open>
  An income row that passes the guards of the income loop; such a row of type
  \<^verbatim>\<open>district\<close> for a given area; the value the loop stores for a row.
\<close>

definition acceptedIncome :: "row \<Rightarrow> bool" where
  "acceptedIncome r =
     (incomeArea r \<noteq> [] \<and> incomeMean r \<noteq> [] \<and> \<not> numIsNaN (parseFloat (incomeMean r))
      \<and> numGtZero (parseFloat (incomeMean r)))"

definition districtEntry :: "string \<Rightarrow> row \<Rightarrow> bool" where
  "districtEntry area r = (acceptedIncome r \<and> incomeAreaType r = ''district'' \<and> incomeArea r = area)"

definition stateEntry :: "string \<Rightarrow> row \<Rightarrow> bool" where
  "stateEntry area r = (acceptedIncome r \<and> incomeAreaType r = ''state'' \<and> incomeArea r = area)"

definition roundedIncome :: "row \<Rightarrow> jsnum" where
  "roundedIncome r = mathRound (parseFloat (incomeMean r))"

section \<open>Facts on numbers\<close>

text \<open>
  The constant of \<open>toDouble\<close> is the number it stands for. Rounding keeps the sign, keeps
  an integer an integer, and keeps a number below the constant below it.
\<close>

lemma overflowBound_power: "overflowBound = 2 ^ 1024 - 2 ^ 970"
  by (simp add: overflowBound_def)

lemma overflowBound_pos: "0 < overflowBound"
  by (simp add: overflowBound_def)

lemma roundHalfEven_nonneg: "0 \<le> x \<Longrightarrow> 0 \<le> roundHalfEven x"
  by (auto simp: roundHalfEven_def Let_def)




lemma nearestDouble_nonneg: "0 \<le> q \<Longrightarrow> 0 \<le> nearestDouble q"
  by (simp add: nearestDouble_def Let_def roundHalfEven_nonneg)






lemma toDouble_nonneg: "0 \<le> q \<Longrightarrow> notNegative (toDouble q)"
  using overflowBound_pos by (auto simp: toDouble_def nearestDouble_nonneg)






text \<open>
  The steps of the two derived metrics on a number that is not negative: the result is
  an integer between 0 and 100.
\<close>

lemma jsdiv_notNegative: "notNegative x \<Longrightarrow> 0 < c \<Longrightarrow> notNegative (jsdiv x (Fin c))"
  by (cases x) (simp_all add: toDouble_nonneg)

lemma jsmul_notNegative: "notNegative x \<Longrightarrow> 0 < c \<Longrightarrow> notNegative (jsmul x (Fin c))"
  by (cases x) (simp_all add: toDouble_nonneg)

lemma round_min_bounds:
  assumes "notNegative x"
  shows "\<exists>n. mathMin (mathRound x) (Fin 100) = Fin (of_int n) \<and> 0 \<le> n \<and> n \<le> 100"
proof (cases x)
  case (Fin q)
  with assms have "0 \<le> q" by simp
  then have "0 \<le> \<lfloor>q + 1 / 2\<rfloor>" by simp
  moreover have "min (rat_of_int \<lfloor>q + 1 / 2\<rfloor>) 100 = of_int (min \<lfloor>q + 1 / 2\<rfloor> 100)"
    by (simp add: min_def)
  ultimately show ?thesis using Fin
    by (intro exI [of _ "min \<lfloor>q + 1 / 2\<rfloor> 100"]) simp
next
  case PInf
  then show ?thesis by (intro exI [of _ 100]) simp
qed (use assms in simp_all)

section \<open>Properties of the deduplicator\<close>

text \<open>
  Claim C3. The deduplicator keeps, for every key, a row with the maximum parsed year,
  where an unparsable or missing year counts as 0, and the first row wins on ties. The
  function's own header reads "Get the latest year's data for each district".

  The code defaults only a missing or empty year (\<^verbatim>\<open>row.year || '0'\<close>). A year that is
  present but unparsable gives \<open>NaN\<close>, and every comparison with \<open>NaN\<close> is false: when
  such a row is the first of its key, no later row replaces it. On the two rows below,
  with years \<^verbatim>\<open>n/a\<close> and \<^verbatim>\<open>2020\<close> in this order, the row kept is the one with year
  \<^verbatim>\<open>n/a\<close>, whereas the claim (unparsable counts as 0, and 2020 > 0) asks for the 2020 row.
\<close>

theorem getLatestData_unparsable_year_kept:
  "map_option (\<lambda>r. r ''year'')
     (getLatestData
        [[''code_state_district'' \<mapsto> ''1_1'', ''year'' \<mapsto> ''n/a''],
         [''code_state_district'' \<mapsto> ''1_1'', ''year'' \<mapsto> ''2020'']]
        ''code_state_district'' ''1_1'')
   = Some (Some ''n/a'')"
  by code_simp

text \<open>
  When every year parses (to a finite number) or is missing, the deduplicator does what
  the claim says for every key that is not the name of a member of \<open>Object.prototype\<close>,
  on rows none of which has the key \<^verbatim>\<open>__proto__\<close>: it keeps a row exactly when some row
  has the key, the row kept has the maximum year, and it is the first row of its key
  with that year.
\<close>

lemma latestGet_plain:
  "m ''__proto__'' = None \<Longrightarrow> ordinaryKey key \<Longrightarrow>
     latestGet m key = (case m key of None \<Rightarrow> Missing | Some r \<Rightarrow> Own r)"
  by (simp add: latestGet_def inheritedSlot_def ordinaryKey_def split: option.splits)

lemma latestStep_other: "rowKey k x \<noteq> key \<Longrightarrow> latestStep k m x key = m key"
  by (auto simp: latestStep_def rowKey_def Let_def split: slot.splits)

lemma latestStep_same:
  "rowKey k x = key \<Longrightarrow> key \<noteq> [] \<Longrightarrow> ordinaryKey key \<Longrightarrow> m ''__proto__'' = None \<Longrightarrow>
     latestStep k m x key =
       (case m key of None \<Rightarrow> Some x
        | Some b \<Rightarrow> Some (if numGt (rowYear x) (rowYear b) then x else b))"
  by (auto simp: latestStep_def rowKey_def Let_def latestGet_plain split: option.splits)

lemma numGt_parsed:
  "rowYear x = Fin a \<Longrightarrow> rowYear b = Fin c \<Longrightarrow>
     numGt (rowYear x) (rowYear b) = (yearOrZero b < yearOrZero x)"
  by (simp add: yearOrZero_def)

lemma getLatestData_snoc:
  "getLatestData (xs @ [x]) k = latestStep k (getLatestData xs k) x"
  by (simp add: getLatestData_def)

lemma getLatestData_no_row:
  "\<forall>r\<in>set rows. rowKey k r \<noteq> key \<Longrightarrow> getLatestData rows k key = None"
proof (induction rows rule: rev_induct)
  case Nil
  then show ?case by (simp add: getLatestData_def)
next
  case (snoc x xs)
  then show ?case by (simp add: getLatestData_snoc latestStep_other)
qed

lemma getLatestData_when_years_parse:
  assumes "\<forall>r\<in>set rows. \<exists>y. rowYear r = Fin y"
    and "\<forall>r\<in>set rows. rowKey k r \<noteq> ''__proto__''"
    and "key \<noteq> []" and "ordinaryKey key"
  shows "(getLatestData rows k key = None \<longrightarrow> (\<forall>r\<in>set rows. rowKey k r \<noteq> key))
       \<and> (\<forall>best. getLatestData rows k key = Some best \<longrightarrow>
             best \<in> set rows \<and> rowKey k best = key
             \<and> (\<forall>r\<in>set rows. rowKey k r = key \<longrightarrow> yearOrZero r \<le> yearOrZero best)
             \<and> best = hd (filter (\<lambda>r. rowKey k r = key \<and> yearOrZero r = yearOrZero best) rows))"
  using assms(1,2)
proof (induction rows rule: rev_induct)
  case Nil
  then show ?case by (simp add: getLatestData_def)
next
  case (snoc x xs)
  let ?m = "getLatestData xs k"
  from snoc.prems obtain a where px: "rowYear x = Fin a" by auto
  from snoc.prems have pxs: "\<forall>r\<in>set xs. \<exists>y. rowYear r = Fin y"
    and nxs: "\<forall>r\<in>set xs. rowKey k r \<noteq> ''__proto__''" by auto
  note ih = snoc.IH [OF pxs nxs]
  have np: "?m ''__proto__'' = None" by (rule getLatestData_no_row [OF nxs])
  show ?case
  proof (cases "rowKey k x = key")
    case False
    then have "getLatestData (xs @ [x]) k key = ?m key"
      by (simp add: getLatestData_snoc latestStep_other)
    with False ih show ?thesis by auto
  next
    case True
    show ?thesis
    proof (cases "?m key")
      case None
      with ih have no: "\<forall>r\<in>set xs. rowKey k r \<noteq> key" by simp
      from None True assms(3,4) np have "getLatestData (xs @ [x]) k key = Some x"
        by (simp add: getLatestData_snoc latestStep_same)
      moreover from no have "filter (\<lambda>r. rowKey k r = key \<and> yearOrZero r = yearOrZero x) xs = []"
        by (auto simp: filter_empty_conv)
      ultimately show ?thesis using True no by auto
    next
      case (Some b)
      with ih have b: "b \<in> set xs" "rowKey k b = key"
        "\<forall>r\<in>set xs. rowKey k r = key \<longrightarrow> yearOrZero r \<le> yearOrZero b"
        "b = hd (filter (\<lambda>r. rowKey k r = key \<and> yearOrZero r = yearOrZero b) xs)"
        by auto
      from b(1) pxs obtain c where pb: "rowYear b = Fin c" by auto
      have step: "getLatestData (xs @ [x]) k key = Some (if yearOrZero b < yearOrZero x then x else b)"
        using Some True assms(3,4) np
        by (simp add: getLatestData_snoc latestStep_same numGt_parsed [OF px pb])
      show ?thesis
      proof (cases "yearOrZero b < yearOrZero x")
        case gt: True
        with b(3) have "filter (\<lambda>r. rowKey k r = key \<and> yearOrZero r = yearOrZero x) xs = []"
          by (auto simp: filter_empty_conv)
        with gt step True b(3) show ?thesis by force
      next
        case le: False
        from b(1,2) have "filter (\<lambda>r. rowKey k r = key \<and> yearOrZero r = yearOrZero b) xs \<noteq> []"
          by (auto simp: filter_empty_conv)
        with le step True b show ?thesis by (auto simp: hd_append)
      qed
    qed
  qed
qed

section \<open>Properties of the tabular record loader\<close>

lemma dom_foldl_upd:
  "dom (foldl (\<lambda>r (index, header). if header = h then r else r(header \<mapsto> g index)) m xs)
     = dom m \<union> (snd ` set xs - {h})"
  by (induction xs arbitrary: m) (auto split: prod.splits)

lemma snd_enumerate: "snd ` set (enumerate n xs) = set xs"
proof -
  have "set (map snd (enumerate n xs)) = set xs" by simp
  then show ?thesis by (simp only: set_map)
qed

lemma dom_rowOf: "dom (rowOf headers values) = set headers - {''__proto__''}"
  by (simp add: rowOf_def dom_foldl_upd snd_enumerate)

lemma parseRow_short:
  "length (splitFields line) < length headers \<Longrightarrow> parseRow headers line = None"
  by (simp add: parseRow_def Let_def)

lemma parseRow_Some:
  "parseRow headers line = Some r \<Longrightarrow>
     dom r = set headers - {''__proto__''} \<and> length headers \<le> length (splitFields line)"
proof -
  assume "parseRow headers line = Some r"
  then have "r = rowOf headers (splitFields line)"
    and "length headers \<le> length (splitFields line)"
    by (simp_all add: parseRow_def Let_def split: if_splits)
  then show ?thesis by (simp add: dom_rowOf)
qed

lemma map_filter_drop:
  "\<forall>x\<in>set xs. \<not> P x \<longrightarrow> g x = None \<Longrightarrow>
     List.map_filter g (filter P xs) = List.map_filter g xs"
  by (induction xs) (simp_all split: option.splits)

lemma set_map_filter: "set (List.map_filter g xs) = {y. \<exists>x\<in>set xs. g x = Some y}"
  by (induction xs) (auto split: option.splits)

text \<open>
  Claim C7, as stated: every data row whose parsed field count does not match the
  header's field count is dropped, so that no row with a differing field count
  contributes an output mapping.

  This fails for a row that is longer than the header. The guard is
  \<^verbatim>\<open>values.length >= headers.length\<close> (its comment: "Only process rows with enough
  values"): below, the header has two fields, the data row has three, and the row is
  kept, with its third value ignored.
\<close>

theorem parseCSV_keeps_longer_row:
  "length (splitFields ''1,2,3'') \<noteq> length (splitFields ''a,b'') \<and>
   map (\<lambda>r. (r ''a'', r ''b'')) (parseCSV (''a,b'' @ [CHR 0x0A] @ ''1,2,3''))
     = [(Some ''1'', Some ''2'')]"
  by code_simp

text \<open>
  Claim C7, amended: every data row with fewer parsed fields than the header is dropped
  and the remaining rows are processed as if it were not there; a row with at least as
  many fields as the header is kept when its first value is neither empty nor \<^verbatim>\<open>state\<close>
  and the line does not start with \<^verbatim>\<open>state,district\<close> (extra values are ignored); and
  every retained row maps exactly the header's fields, all but a field named
  \<^verbatim>\<open>__proto__\<close>, a name under which a JavaScript object stores no string.
\<close>

theorem parseCSV_field_count:
  assumes "csvLines content = headerLine # dataLines"
  shows "parseCSV content =
           List.map_filter (parseRow (splitFields headerLine))
             (filter (\<lambda>line. length (splitFields headerLine) \<le> length (splitFields line))
                dataLines)
         \<and> (\<forall>r \<in> set (parseCSV content). dom r = set (splitFields headerLine) - {''__proto__''})
         \<and> (\<forall>line \<in> set dataLines.
               length (splitFields headerLine) \<le> length (splitFields line)
               \<and> cell (splitFields line) 0 \<noteq> [] \<and> cell (splitFields line) 0 \<noteq> ''state''
               \<and> \<not> startsWith ''state,district'' line
             \<longrightarrow> parseRow (splitFields headerLine) line
                   = Some (rowOf (splitFields headerLine) (splitFields line)))"
proof -
  let ?hs = "splitFields headerLine"
  have p: "parseCSV content = List.map_filter (parseRow ?hs) dataLines"
    using assms by (simp add: parseCSV_def)
  have "List.map_filter (parseRow ?hs)
          (filter (\<lambda>line. length ?hs \<le> length (splitFields line)) dataLines)
        = List.map_filter (parseRow ?hs) dataLines"
    by (rule map_filter_drop) (simp add: parseRow_short)
  moreover have "\<forall>r \<in> set (List.map_filter (parseRow ?hs) dataLines).
      dom r = set ?hs - {''__proto__''}"
    by (auto simp: set_map_filter dest: parseRow_Some)
  moreover have "\<forall>line \<in> set dataLines. trim line \<noteq> []"
  proof
    fix line assume "line \<in> set dataLines"
    then have "line \<in> set (csvLines content)" using assms by simp
    then show "trim line \<noteq> []" by (simp add: csvLines_def)
  qed
  then have "\<forall>line \<in> set dataLines.
               length ?hs \<le> length (splitFields line)
               \<and> cell (splitFields line) 0 \<noteq> [] \<and> cell (splitFields line) 0 \<noteq> ''state''
               \<and> \<not> startsWith ''state,district'' line
             \<longrightarrow> parseRow ?hs line = Some (rowOf ?hs (splitFields line))"
    by (simp add: parseRow_def Let_def)
  ultimately show ?thesis using p by simp
qed

text \<open>
  The theorem at a file with a two-field header and three data rows of one, three and
  two fields: the short row is dropped, the other two are kept, and both map the two
  header fields.
\<close>

theorem parseCSV_field_count_witness:
  "csvLines (''a,b'' @ [CHR 0x0A] @ ''1'' @ [CHR 0x0A] @ ''3,4,5'' @ [CHR 0x0A] @ ''6,7'')
     = ''a,b'' # [''1'', ''3,4,5'', ''6,7'']
   \<and> map (\<lambda>r. (r ''a'', r ''b''))
        (parseCSV (''a,b'' @ [CHR 0x0A] @ ''1'' @ [CHR 0x0A] @ ''3,4,5'' @ [CHR 0x0A] @ ''6,7''))
     = [(Some ''3'', Some ''4''), (Some ''6'', Some ''7'')]"
proof -
  have h: "csvLines (''a,b'' @ [CHR 0x0A] @ ''1'' @ [CHR 0x0A] @ ''3,4,5'' @ [CHR 0x0A] @ ''6,7'')
             = ''a,b'' # [''1'', ''3,4,5'', ''6,7'']"
    by code_simp
  have e: "map (\<lambda>r. (r ''a'', r ''b''))
        (List.map_filter (parseRow (splitFields ''a,b''))
           (filter (\<lambda>line. length (splitFields ''a,b'') \<le> length (splitFields line))
              [''1'', ''3,4,5'', ''6,7'']))
     = [(Some ''3'', Some ''4''), (Some ''6'', Some ''7'')]"
    by code_simp
  from parseCSV_field_count [OF h, THEN conjunct1] e h show ?thesis by (simp only:)
qed

text \<open>
  For a header without such a field, every retained row maps exactly the header's
  fields; a string assigned under the name \<^verbatim>\<open>__proto__\<close> is not stored.
\<close>

lemma parseCSV_rows_map_header:
  assumes "''__proto__'' \<notin> set (splitFields headerLine)"
    and "csvLines content = headerLine # dataLines"
  shows "\<forall>r \<in> set (parseCSV content). dom r = set (splitFields headerLine)"
proof -
  have "parseCSV content = List.map_filter (parseRow (splitFields headerLine)) dataLines"
    using assms(2) by (simp add: parseCSV_def)
  with assms(1) show ?thesis
    by (auto simp: set_map_filter dest: parseRow_Some)
qed

lemma rowOf_proto_header:
  "dom (rowOf [''__proto__'', ''a''] [''1'', ''2'']) = {''a''}"
  by (simp add: dom_rowOf)

section \<open>Properties of the enrichment writer\<close>

lemma latestStep_empty_key: "m [] = None \<Longrightarrow> latestStep joinKey m r [] = None"
  by (auto simp: latestStep_def Let_def split: slot.splits)

lemma foldl_latestStep_empty_key:
  "m [] = None \<Longrightarrow> foldl (latestStep joinKey) m csvData [] = None"
  by (induction csvData arbitrary: m) (simp_all add: latestStep_empty_key)

lemma getLatestData_empty_key: "getLatestData csvData joinKey [] = None"
  by (simp add: getLatestData_def foldl_latestStep_empty_key)

lemma properties_enrichFeature:
  "properties (enrichFeature numStr bt latestData incomeData f)
     = Some (enrichProps numStr bt latestData incomeData (sourceProps f))"
  by (simp add: enrichFeature_def)

lemma enrichProps_hasCensusData:
  "enrichProps numStr bt latestData incomeData props ''hasCensusData''
     = Some (JBool (matchedRecord numStr latestData (resolveJoinKey bt props) \<noteq> None))"
  by (simp add: enrichProps_def enrichedProps_def missingProps_def split: option.splits)

lemma enrichProps_unmatched:
  "matchedRecord numStr latestData (resolveJoinKey bt props) = None \<Longrightarrow>
     enrichProps numStr bt latestData incomeData props = missingProps props"
  by (simp add: enrichProps_def)

lemma enrichProps_matched:
  "matchedRecord numStr latestData (resolveJoinKey bt props) = Some demoData \<Longrightarrow>
     enrichProps numStr bt latestData incomeData props
       = enrichedProps numStr bt incomeData props demoData"
  by (simp add: enrichProps_def)

lemma matchedRecord_plain:
  "latestData ''__proto__'' = None \<Longrightarrow> ordinaryKey (toKey numStr joinKey) \<Longrightarrow>
     matchedRecord numStr latestData joinKey
       = (if truthy joinKey then latestData (toKey numStr joinKey) else None)"
  by (simp add: matchedRecord_def latestGet_plain split: option.splits)

lemma geometry_enrichFeature:
  "geometry (enrichFeature numStr bt latestData incomeData f) = geometry f"
  by (simp add: enrichFeature_def)

text \<open>A run writes one feature per input feature, in order, with the geometries untouched.\<close>

lemma enrichGeoJSON_geometries:
  "enrichGeoJSON numStr bt csv incomeCsv fs = Some out \<Longrightarrow> map geometry out = map geometry fs"
  by (auto simp: enrichGeoJSON_def Let_def geometry_enrichFeature
           split: option.splits if_splits)

text \<open>
  Claim C1, as stated: the output \<open>hasCensusData\<close> is \<open>false\<close> if and only if the
  feature's resolved join key has no entry in the deduplicated tabular data.

  The writer tests \<^verbatim>\<open>joinKey && latestData[joinKey]\<close>, so a falsy key is never looked
  up. Below, the feature's only code is \<^verbatim>\<open>code: 0\<close>, the resolved key is the number 0,
  the deduplicated data has an entry under \<^verbatim>\<open>0\<close> (the string that this key converts
  to), and the feature is written as unmatched.
\<close>

theorem zero_key_unmatched:
  "resolveJoinKey ''district'' [''code'' \<mapsto> JNum (Fin 0)] = JNum (Fin 0)
   \<and> map_option (\<lambda>r. r ''population_total'')
        (getLatestData [[''code_state_district'' \<mapsto> ''0'', ''population_total'' \<mapsto> ''5000'']]
           ''code_state_district''
           (toKey integerString (resolveJoinKey ''district'' [''code'' \<mapsto> JNum (Fin 0)])))
      = Some (Some ''5000'')
   \<and> enrichProps integerString ''district''
        (getLatestData [[''code_state_district'' \<mapsto> ''0'', ''population_total'' \<mapsto> ''5000'']]
           ''code_state_district'')
        Map.empty [''code'' \<mapsto> JNum (Fin 0)] ''hasCensusData''
      = Some (JBool False)"
  by code_simp

text \<open>
  Claim C1, amended. For every feature processed by the enrichment writer, the output
  \<open>hasCensusData\<close> is \<open>false\<close> if and only if the resolved join key is falsy (\<open>undefined\<close>,
  \<open>null\<close>, \<open>false\<close>, \<open>0\<close>, \<open>NaN\<close> or the empty string) or has no entry in the deduplicated
  tabular data; this is stated for a key that is not the name of a member of
  \<open>Object.prototype\<close> and a table without a row under the key \<^verbatim>\<open>__proto__\<close>. Whenever
  the flag is \<open>false\<close>, the six numeric output fields are exactly 0. The deduplicated data
  never has an entry for the empty key.
\<close>

theorem hasCensusData_false_iff_falsy_or_no_entry:
  "let props = sourceProps f;
       key = resolveJoinKey bt props;
       out = enrichProps numStr bt latestData incomeData props
   in properties (enrichFeature numStr bt latestData incomeData f) = Some out
      \<and> (ordinaryKey (toKey numStr key) \<and> latestData ''__proto__'' = None \<longrightarrow>
           (out ''hasCensusData'' = Some (JBool False)
              \<longleftrightarrow> (\<not> truthy key \<or> latestData (toKey numStr key) = None)))
      \<and> (out ''hasCensusData'' = Some (JBool False) \<longrightarrow>
           out ''population'' = Some (JNum (Fin 0))
           \<and> out ''avg_income'' = Some (JNum (Fin 0))
           \<and> out ''competitors'' = Some (JNum (Fin 0))
           \<and> out ''public_services'' = Some (JNum (Fin 0))
           \<and> out ''site_suitability_score'' = Some (JNum (Fin 0))
           \<and> out ''night_lights'' = Some (JNum (Fin 0)))
      \<and> getLatestData csvData joinKey [] = None"
proof -
  let ?props = "sourceProps f"
  let ?key = "resolveJoinKey bt ?props"
  let ?out = "enrichProps numStr bt latestData incomeData ?props"
  let ?m = "matchedRecord numStr latestData ?key"
  have flag: "?out ''hasCensusData'' = Some (JBool (?m \<noteq> None))"
    by (rule enrichProps_hasCensusData)
  have iff: "ordinaryKey (toKey numStr ?key) \<and> latestData ''__proto__'' = None \<longrightarrow>
      (?out ''hasCensusData'' = Some (JBool False)
         \<longleftrightarrow> (\<not> truthy ?key \<or> latestData (toKey numStr ?key) = None))"
    unfolding flag by (auto simp: matchedRecord_plain)
  have zeros: "?out ''hasCensusData'' = Some (JBool False) \<longrightarrow>
          ?out ''population'' = Some (JNum (Fin 0))
          \<and> ?out ''avg_income'' = Some (JNum (Fin 0))
          \<and> ?out ''competitors'' = Some (JNum (Fin 0))
          \<and> ?out ''public_services'' = Some (JNum (Fin 0))
          \<and> ?out ''site_suitability_score'' = Some (JNum (Fin 0))
          \<and> ?out ''night_lights'' = Some (JNum (Fin 0))"
  proof
    assume "?out ''hasCensusData'' = Some (JBool False)"
    then have "?m = None" unfolding flag by simp
    then have "?out = missingProps ?props" by (rule enrichProps_unmatched)
    then show "?out ''population'' = Some (JNum (Fin 0))
          \<and> ?out ''avg_income'' = Some (JNum (Fin 0))
          \<and> ?out ''competitors'' = Some (JNum (Fin 0))
          \<and> ?out ''public_services'' = Some (JNum (Fin 0))
          \<and> ?out ''site_suitability_score'' = Some (JNum (Fin 0))
          \<and> ?out ''night_lights'' = Some (JNum (Fin 0))"
      by (simp add: missingProps_def)
  qed
  show ?thesis
    unfolding Let_def
  proof (intro conjI)
    show "properties (enrichFeature numStr bt latestData incomeData f) = Some ?out"
      by (rule properties_enrichFeature)
  qed (rule iff, rule zeros, rule getLatestData_empty_key)
qed

text \<open>
  The theorem at a district feature with code \<^verbatim>\<open>9_9\<close>, against tabular data that
  only has the key \<^verbatim>\<open>1_1\<close>.
\<close>

theorem hasCensusData_false_iff_falsy_or_no_entry_witness:
  "enrichProps integerString ''district''
     [''1_1'' \<mapsto> [''code_state_district'' \<mapsto> ''1_1'', ''population_total'' \<mapsto> ''5000'']]
     Map.empty
     (sourceProps \<lparr>geometry = \<lparr>gtype = ''Polygon'', coordinates = Coords []\<rparr>,
                   properties = Some [''code_state_district'' \<mapsto> JStr ''9_9''],
                   members = Map.empty\<rparr>) ''hasCensusData'' = Some (JBool False)
   \<and> enrichProps integerString ''district''
     [''1_1'' \<mapsto> [''code_state_district'' \<mapsto> ''1_1'', ''population_total'' \<mapsto> ''5000'']]
     Map.empty
     (sourceProps \<lparr>geometry = \<lparr>gtype = ''Polygon'', coordinates = Coords []\<rparr>,
                   properties = Some [''code_state_district'' \<mapsto> JStr ''9_9''],
                   members = Map.empty\<rparr>) ''population'' = Some (JNum (Fin 0))"
proof -
  let ?latest = "[''1_1'' \<mapsto> [''code_state_district'' \<mapsto> ''1_1'', ''population_total'' \<mapsto> ''5000'']]"
  let ?f = "\<lparr>geometry = \<lparr>gtype = ''Polygon'', coordinates = Coords []\<rparr>,
             properties = Some [''code_state_district'' \<mapsto> JStr ''9_9''],
             members = Map.empty\<rparr>"
  have k: "resolveJoinKey ''district'' (sourceProps ?f) = JStr ''9_9''"
    by (simp add: resolveJoinKey_def sourceProps_def getProp_def jsor_def)
  have n: "?latest (toKey integerString (JStr ''9_9'')) = None"
    by (simp add: toKey_def)
  have o: "ordinaryKey (toKey integerString (JStr ''9_9''))"
    by code_simp
  have p: "?latest ''__proto__'' = None"
    by simp
  note t = hasCensusData_false_iff_falsy_or_no_entry
         [of ?f "''district''" integerString ?latest Map.empty "[]" "''code_state_district''",
          unfolded Let_def k n]
  have a: "enrichProps integerString ''district'' ?latest Map.empty (sourceProps ?f) ''hasCensusData''
             = Some (JBool False)"
    using t [THEN conjunct2, THEN conjunct1] o p by simp
  with t [THEN conjunct2, THEN conjunct2, THEN conjunct1] show ?thesis by simp
qed

text \<open>
  Outside the theorem's condition, a key that names a member of \<open>Object.prototype\<close>
  passes the writer's test against any table, here the empty one: the feature is written
  as matched, with population 0.
\<close>

lemma inherited_key_matched:
  "enrichProps integerString ''district'' Map.empty Map.empty
     [''code_state_district'' \<mapsto> JStr ''toString''] ''hasCensusData'' = Some (JBool True)
   \<and> enrichProps integerString ''district'' Map.empty Map.empty
     [''code_state_district'' \<mapsto> JStr ''toString''] ''population'' = Some (JNum (Fin 0))"
  by code_simp

section \<open>Properties of the metric calculator\<close>

text \<open>
  Claim C2, as stated: a matched feature that already carries a value for
  \<open>competitors\<close>, \<open>public_services\<close>, \<open>site_suitability_score\<close> or \<open>night_lights\<close> keeps
  it; the computed value is used only when the value is absent.

  The writer takes \<^verbatim>\<open>props.x || computed\<close>, so a value that is present but falsy is
  treated as absent. Below, the feature carries \<open>site_suitability_score = 0\<close>, the record
  has population 100000 on area 1, and the output score is the computed 100.
\<close>

theorem preexisting_zero_score_replaced:
  "enrichProps integerString ''district''
     [''1_1'' \<mapsto> [''code_state_district'' \<mapsto> ''1_1'', ''population_total'' \<mapsto> ''100000'',
                  ''area_km2'' \<mapsto> ''1'']]
     Map.empty
     [''code_state_district'' \<mapsto> JStr ''1_1'', ''site_suitability_score'' \<mapsto> JNum (Fin 0)]
     ''site_suitability_score'' = Some (JNum (Fin 100))"
  by code_simp

text \<open>
  Claim C2, amended: for every matched feature, each of the four fields is written
  unchanged when the feature carries a truthy value for it (any value other than
  \<open>undefined\<close>, \<open>null\<close>, \<open>false\<close>, \<open>0\<close>, \<open>NaN\<close> and the empty string), and is the computed
  value otherwise.
\<close>

theorem preexisting_truthy_value_kept:
  assumes "matchedRecord numStr latestData (resolveJoinKey bt props) = Some demoData"
  shows "let out = enrichProps numStr bt latestData incomeData props in
     out ''competitors'' =
        Some (if truthy (getProp props ''competitors'') then getProp props ''competitors''
              else JNum (populationShare demoData 5000))
   \<and> out ''public_services'' =
        Some (if truthy (getProp props ''public_services'') then getProp props ''public_services''
              else JNum (populationShare demoData 10000))
   \<and> out ''site_suitability_score'' =
        Some (if truthy (getProp props ''site_suitability_score'')
              then getProp props ''site_suitability_score''
              else JNum (calculatedScore demoData))
   \<and> out ''night_lights'' =
        Some (if truthy (getProp props ''night_lights'') then getProp props ''night_lights''
              else JNum (calculatedNightLights demoData))"
  unfolding Let_def enrichProps_matched [OF assms]
  by (simp add: enrichedProps_def jsor_def)

text \<open>The theorem at a feature that carries \<open>site_suitability_score = 77\<close>.\<close>

theorem preexisting_truthy_value_kept_witness:
  "enrichProps integerString ''district''
     [''1_1'' \<mapsto> [''code_state_district'' \<mapsto> ''1_1'', ''population_total'' \<mapsto> ''100000'',
                  ''area_km2'' \<mapsto> ''1'']]
     Map.empty
     [''code_state_district'' \<mapsto> JStr ''1_1'', ''site_suitability_score'' \<mapsto> JNum (Fin 77)]
     ''site_suitability_score'' = Some (JNum (Fin 77))"
proof -
  let ?demo = "[''code_state_district'' \<mapsto> ''1_1'', ''population_total'' \<mapsto> ''100000'',
                  ''area_km2'' \<mapsto> ''1'']"
  let ?props = "[''code_state_district'' \<mapsto> JStr ''1_1'', ''site_suitability_score'' \<mapsto> JNum (Fin 77)]"
  have m: "matchedRecord integerString [''1_1'' \<mapsto> ?demo] (resolveJoinKey ''district'' ?props) = Some ?demo"
    by (simp add: matchedRecord_def latestGet_def resolveJoinKey_def getProp_def jsor_def toKey_def)
  from preexisting_truthy_value_kept [OF m, of Map.empty, unfolded Let_def,
         THEN conjunct2, THEN conjunct2, THEN conjunct1]
  show ?thesis by (simp add: getProp_def)
qed

text \<open>
  Claim C4. \<open>night_lights\<close> is \<open>clamp(round((density / 500) * 50), 0, 100)\<close> and
  \<open>site_suitability_score\<close> is \<open>clamp(round((density / 1000) * 50), 0, 100)\<close>, so both lie
  between 0 and 100. The script's comments and the repository's data guide give the
  range 0-100 for both fields.

  The code caps the values at 100 with \<^verbatim>\<open>Math.min\<close> and has no lower bound. For a
  record with \<^verbatim>\<open>population_total = "-1000"\<close> (area defaulted to 1) the density is
  \<open>-1000\<close>, and the values written are \<open>-100\<close> and \<open>-50\<close>.
\<close>

theorem negative_density_not_clamped:
  "calculatedNightLights [''code_state_district'' \<mapsto> ''1_1'', ''population_total'' \<mapsto> ''-1000''] = Fin (- 100)
   \<and> calculatedScore [''code_state_district'' \<mapsto> ''1_1'', ''population_total'' \<mapsto> ''-1000''] = Fin (- 50)
   \<and> enrichProps integerString ''district''
        [''1_1'' \<mapsto> [''code_state_district'' \<mapsto> ''1_1'', ''population_total'' \<mapsto> ''-1000'']]
        Map.empty [''code_state_district'' \<mapsto> JStr ''1_1''] ''night_lights''
      = Some (JNum (Fin (- 100)))"
  by code_simp

text \<open>
  For a density that is not negative (also an infinite one) the two values do lie
  between 0 and 100.
\<close>

lemma calculated_notNegative:
  assumes "notNegative (density demoData)"
  shows "\<exists>n. calculatedNightLights demoData = Fin (of_int n) \<and> 0 \<le> n \<and> n \<le> 100"
    and "\<exists>n. calculatedScore demoData = Fin (of_int n) \<and> 0 \<le> n \<and> n \<le> 100"
  unfolding calculatedNightLights_def calculatedScore_def
  by (rule round_min_bounds, rule jsmul_notNegative, rule jsdiv_notNegative, rule assms, simp, simp)+

lemma calculated_bounds:
  assumes "density demoData = Fin q" and "0 \<le> q"
  shows "\<exists>n. calculatedNightLights demoData = Fin (of_int n) \<and> 0 \<le> n \<and> n \<le> 100"
    and "\<exists>n. calculatedScore demoData = Fin (of_int n) \<and> 0 \<le> n \<and> n \<le> 100"
  using assms by (simp_all add: calculated_notNegative)

text \<open>
  The specification's example: population 100000 on an area written \<^verbatim>\<open>"9,062"\<close> gives
  1 for both values. The products are those of the doubles: for a density of 145 the
  exact \<open>(145 / 500) * 50\<close> is 14.5, the double computed is just below it, and the value
  is 14.
\<close>

lemma calculated_examples:
  "calculatedNightLights [''population_total'' \<mapsto> ''100000'', ''area_km2'' \<mapsto> ''9,062''] = Fin 1
   \<and> calculatedScore [''population_total'' \<mapsto> ''100000'', ''area_km2'' \<mapsto> ''9,062''] = Fin 1
   \<and> calculatedNightLights [''population_total'' \<mapsto> ''145''] = Fin 14"
  by code_simp

text \<open>
  Claim C5, as stated: the area divisor is always strictly positive, an area that is
  missing, unparsable or less than or equal to 0 being replaced by a positive default.

  The default is taken by \<^verbatim>\<open>parseFloat(...) || 1\<close>, that is when the parsed value is
  \<open>NaN\<close> or 0. A negative area is truthy and is used as it is: with
  \<^verbatim>\<open>area_km2 = "-5"\<close> the divisor is \<open>-5\<close> and the density of 1000 people is \<open>-200\<close>.
\<close>

theorem negative_area_kept:
  "recordArea [''area_km2'' \<mapsto> ''-5''] = Fin (- 5)
   \<and> density [''population_total'' \<mapsto> ''1000'', ''area_km2'' \<mapsto> ''-5''] = Fin (- 200)"
  by code_simp

lemma recordArea_cases:
  "recordArea demoData = (if truthyNum (parsedArea demoData) then parsedArea demoData else Fin 1)"
  by (simp add: recordArea_def numOr_def)

text \<open>
  Claim C5, amended: the area divisor is never zero and never \<open>NaN\<close>. When
  \<^verbatim>\<open>area_km2\<close> is missing, empty, unparsable or parses to 0 (after removing thousands
  separators, so that \<^verbatim>\<open>"9,062"\<close> parses to 9062) the area is the default 1; and the
  divisor is strictly positive whenever the parsed area is not negative.
\<close>

theorem recordArea_never_zero:
  "recordArea demoData \<noteq> NaN \<and> recordArea demoData \<noteq> Fin 0
   \<and> (\<not> truthyNum (parsedArea demoData) \<longrightarrow> recordArea demoData = Fin 1)
   \<and> (strOr (demoData ''area_km2'') [] = [] \<longrightarrow> recordArea demoData = Fin 1)
   \<and> (\<not> numLtZero (parsedArea demoData) \<longrightarrow> numGtZero (recordArea demoData))
   \<and> recordArea [''area_km2'' \<mapsto> ''9,062''] = Fin 9062"
proof (intro conjI)
  show "recordArea demoData \<noteq> NaN"
    by (cases "parsedArea demoData") (simp_all add: recordArea_cases)
  show "recordArea demoData \<noteq> Fin 0"
    by (cases "parsedArea demoData") (simp_all add: recordArea_cases)
  show "\<not> truthyNum (parsedArea demoData) \<longrightarrow> recordArea demoData = Fin 1"
    by (simp add: recordArea_cases)
  show "strOr (demoData ''area_km2'') [] = [] \<longrightarrow> recordArea demoData = Fin 1"
  proof
    assume "strOr (demoData ''area_km2'') [] = []"
    then have "strOr (demoData ''area_km2'') ''1'' = ''1''"
      by (auto simp: strOr_def split: option.splits if_splits)
    then have "parsedArea demoData = Fin 1"
      unfolding parsedArea_def by (simp only:) code_simp
    then show "recordArea demoData = Fin 1" by (simp add: recordArea_cases)
  qed
  show "\<not> numLtZero (parsedArea demoData) \<longrightarrow> numGtZero (recordArea demoData)"
    by (cases "parsedArea demoData") (auto simp: recordArea_cases)
  show "recordArea [''area_km2'' \<mapsto> ''9,062''] = Fin 9062"
    by code_simp
qed

text \<open>The theorem at a record whose area is unparsable.\<close>

theorem recordArea_never_zero_witness:
  "parsedArea [''population_total'' \<mapsto> ''1000'', ''area_km2'' \<mapsto> ''abc''] = NaN
   \<and> recordArea [''population_total'' \<mapsto> ''1000'', ''area_km2'' \<mapsto> ''abc''] = Fin 1
   \<and> numGtZero (recordArea [''population_total'' \<mapsto> ''1000'', ''area_km2'' \<mapsto> ''abc''])"
proof -
  let ?demo = "[''population_total'' \<mapsto> ''1000'', ''area_km2'' \<mapsto> ''abc'']"
  have p: "parsedArea ?demo = NaN" by code_simp
  note t = recordArea_never_zero [of ?demo, unfolded p]
  from t p show ?thesis by simp
qed

section \<open>Properties of the runtime transformer\<close>








text \<open>
  Claim C10. For every feature collection whose features all have geometry type
  \<open>Polygon\<close> or \<open>MultiPolygon\<close>, and every mapping, \<^verbatim>\<open>transformToDistrictFeatures\<close>
  returns a collection with the same number of features, in the same order, with the
  same geometries.

  A GeoJSON feature may have \<^verbatim>\<open>properties: null\<close>. The other readers of features in
  the repository guard against it (\<^verbatim>\<open>feature.properties || {}\<close>); \<^verbatim>\<open>transformFeature\<close>
  does not, and reading a key of \<^verbatim>\<open>null\<close> raises a \<^verbatim>\<open>TypeError\<close>: the call below, on a
  collection of one polygon feature, returns no collection.
\<close>

theorem null_properties_type_error:
  "transformToDistrictFeatures
     \<lparr>features = [\<lparr>geometry = \<lparr>gtype = ''Polygon'', coordinates = Coords []\<rparr>,
                   properties = None, members = Map.empty\<rparr>],
      fc_members = Map.empty\<rparr>
     \<lparr>mapping_id = None, mapping_name = None, mapping_population = None,
      mapping_avg_income = None, mapping_competitors = None,
      mapping_public_services = None, mapping_site_suitability_score = None,
      mapping_night_lights = None\<rparr>
   = Inl TypeError"
  by (simp add: transformToDistrictFeatures_def transformFeature_def)

text \<open>When every feature has properties, the claim's conclusion holds.\<close>

lemma mapResult_all_ok:
  "\<forall>x\<in>set xs. g x = Inr (h x) \<Longrightarrow> mapResult g xs = Inr (map h xs)"
  by (induction xs) simp_all

lemma transform_preserves_geometry:
  assumes "\<forall>f\<in>set (features data). properties f \<noteq> None \<and>
             (gtype (geometry f) = ''Polygon'' \<or> gtype (geometry f) = ''MultiPolygon'')"
  shows "\<exists>out. transformToDistrictFeatures data mapping = Inr out
           \<and> map df_geometry (dc_features out) = map geometry (features data)
           \<and> length (dc_features out) = length (features data)"
proof -
  let ?h = "\<lambda>f. \<lparr> df_geometry = geometry f,
                 df_properties = transformedProps (the (properties f)) mapping,
                 df_members = members f \<rparr>"
  have "\<forall>f\<in>set (features data). transformFeature f mapping = Inr (?h f)"
    using assms by (auto simp: transformFeature_def)
  then have "mapResult (\<lambda>f. transformFeature f mapping) (features data) = Inr (map ?h (features data))"
    by (rule mapResult_all_ok)
  then show ?thesis
    by (simp add: transformToDistrictFeatures_def comp_def)
qed

section \<open>Properties of the income joiner\<close>

text \<open>
  Claim C6. Whatever the order of the income rows, a district-level entry takes
  precedence over a state-level entry for the same area name; a district-level figure,
  once set, is never overwritten by a state-level one; the joined \<open>avg_income\<close> of a
  district with both entries is always the district-level value. The loop's comments
  say the same: "prefer district-level, fallback to state-level", "Only use state-level
  if we don't have district-level data".

  The loop stores \<^verbatim>\<open>Math.round(income)\<close> and tests for a recorded value with
  \<^verbatim>\<open>!incomeData[area]\<close>. A district-level income below 0.5 passes the guard
  \<^verbatim>\<open>income > 0\<close> and is stored as 0, which that test reads as no value: below, the
  state-level row that follows overwrites the district-level figure, the joined
  \<open>avg_income\<close> of the district is the state-level 5000, and with the two rows in the
  other order the value recorded is the district-level 0.
\<close>

theorem district_income_rounded_to_zero_overwritten:
  "buildIncomeData
     [[''area_type'' \<mapsto> ''district'', ''area'' \<mapsto> ''W.P. Labuan'', ''income_mean'' \<mapsto> ''0.4''],
      [''area_type'' \<mapsto> ''state'', ''area'' \<mapsto> ''W.P. Labuan'', ''income_mean'' \<mapsto> ''5000'']]
     ''W.P. Labuan'' = Some (Fin 5000)
   \<and> avg_income integerString ''district''
       (buildIncomeData
          [[''area_type'' \<mapsto> ''district'', ''area'' \<mapsto> ''W.P. Labuan'', ''income_mean'' \<mapsto> ''0.4''],
           [''area_type'' \<mapsto> ''state'', ''area'' \<mapsto> ''W.P. Labuan'', ''income_mean'' \<mapsto> ''5000'']])
       [''district'' \<mapsto> JStr ''W.P. Labuan''] Map.empty = JNum (Fin 5000)
   \<and> buildIncomeData
     [[''area_type'' \<mapsto> ''state'', ''area'' \<mapsto> ''W.P. Labuan'', ''income_mean'' \<mapsto> ''5000''],
      [''area_type'' \<mapsto> ''district'', ''area'' \<mapsto> ''W.P. Labuan'', ''income_mean'' \<mapsto> ''0.4'']]
     ''W.P. Labuan'' = Some (Fin 0)"
  by code_simp

text \<open>
  When every accepted district-level entry of an area name rounds to a non-zero amount
  (and the name is not that of a member of \<open>Object.prototype\<close>), the claim's conclusion
  holds: the value recorded for the name is that of the last district-level row, the
  state-level rows for the name have no effect on it, and a district feature of that
  name whose census record has no \<open>income_avg\<close> of its own is given that value.
\<close>

lemma incomeStep_not_accepted: "\<not> acceptedIncome r \<Longrightarrow> incomeStep m r = m"
  by (auto simp: incomeStep_def acceptedIncome_def Let_def)

lemma incomeStep_other_area: "incomeArea r \<noteq> area \<Longrightarrow> incomeStep m r area = m area"
  by (simp add: incomeStep_def incomeSet_def Let_def)

lemma incomeStep_district:
  "districtEntry area r \<Longrightarrow> area \<noteq> ''__proto__'' \<Longrightarrow> incomeStep m r area = Some (roundedIncome r)"
  by (auto simp: incomeStep_def incomeSet_def districtEntry_def acceptedIncome_def
                 roundedIncome_def Let_def)

lemma incomeStep_keep:
  assumes "\<not> districtEntry area r" and "hasIncome m area"
  shows "incomeStep m r area = m area"
proof (cases "acceptedIncome r \<and> incomeArea r = area")
  case True
  with assms(1) have "incomeAreaType r \<noteq> ''district''" by (simp add: districtEntry_def)
  with True assms(2) show ?thesis by (simp add: incomeStep_def Let_def)
next
  case False
  then show ?thesis
    using incomeStep_not_accepted [of r m] incomeStep_other_area [of r area m] by auto
qed

lemma hasIncome_own:
  "area \<noteq> ''__proto__'' \<Longrightarrow> m area = Some v \<Longrightarrow> hasIncome m area = truthyNum v"
  by (simp add: hasIncome_def incomeGet_def)

lemma incomeAt_own:
  "area \<noteq> ''__proto__'' \<Longrightarrow> m area = Some v \<Longrightarrow> incomeAt m area = JNum v"
  by (simp add: incomeAt_def incomeGet_def)

lemma ordinaryKey_not_proto: "ordinaryKey k \<Longrightarrow> k \<noteq> ''__proto__''"
  by (auto simp: ordinaryKey_def objectPrototypeNames_def)

lemma foldl_incomeStep_district:
  assumes "\<exists>r\<in>set rows. districtEntry area r"
    and "\<forall>r\<in>set rows. districtEntry area r \<longrightarrow> truthyNum (roundedIncome r)"
    and "area \<noteq> ''__proto__''"
  shows "foldl incomeStep m rows area = Some (roundedIncome (last (filter (districtEntry area) rows)))"
  using assms(1,2)
proof (induction rows rule: rev_induct)
  case Nil
  then show ?case by simp
next
  case (snoc x xs)
  show ?case
  proof (cases "districtEntry area x")
    case True
    then show ?thesis by (simp add: incomeStep_district assms(3))
  next
    case False
    with snoc.prems have ex: "\<exists>r\<in>set xs. districtEntry area r" by auto
    from snoc.prems have al: "\<forall>r\<in>set xs. districtEntry area r \<longrightarrow> truthyNum (roundedIncome r)" by auto
    have ih: "foldl incomeStep m xs area = Some (roundedIncome (last (filter (districtEntry area) xs)))"
      by (rule snoc.IH [OF ex al])
    from ex have ne: "filter (districtEntry area) xs \<noteq> []" by (auto simp: filter_empty_conv)
    then have "last (filter (districtEntry area) xs) \<in> set (filter (districtEntry area) xs)"
      by (rule last_in_set)
    then have "truthyNum (roundedIncome (last (filter (districtEntry area) xs)))"
      using al by auto
    with ih have "hasIncome (foldl incomeStep m xs) area" by (simp add: hasIncome_own assms(3))
    with False ih show ?thesis by (simp add: incomeStep_keep)
  qed
qed

lemma district_income_precedence:
  assumes "\<exists>r\<in>set rows. districtEntry area r"
    and "\<forall>r\<in>set rows. districtEntry area r \<longrightarrow> truthyNum (roundedIncome r)"
    and "ordinaryKey area"
  shows "buildIncomeData rows area = Some (roundedIncome (last (filter (districtEntry area) rows)))
     \<and> buildIncomeData (filter (\<lambda>r. \<not> stateEntry area r) rows) area = buildIncomeData rows area
     \<and> (strOr (demoData ''income_avg'') [] = []
          \<and> jsor (getProp props ''district'') (getProp props ''name'') = JStr area
        \<longrightarrow> avg_income numStr ''district'' (buildIncomeData rows) props demoData
              = JNum (roundedIncome (last (filter (districtEntry area) rows))))"
proof -
  let ?v = "roundedIncome (last (filter (districtEntry area) rows))"
  note np = ordinaryKey_not_proto [OF assms(3)]
  have main: "buildIncomeData rows area = Some ?v"
    unfolding buildIncomeData_def by (rule foldl_incomeStep_district [OF assms(1,2) np])
  have d_not_s: "\<And>r. districtEntry area r \<Longrightarrow> \<not> stateEntry area r"
    by (auto simp: districtEntry_def stateEntry_def)
  let ?rows' = "filter (\<lambda>r. \<not> stateEntry area r) rows"
  have f: "filter (districtEntry area) ?rows' = filter (districtEntry area) rows"
    using d_not_s by (auto simp: filter_filter intro: filter_cong)
  have "buildIncomeData ?rows' area = Some (roundedIncome (last (filter (districtEntry area) ?rows')))"
    unfolding buildIncomeData_def
    using assms(1,2) d_not_s np by (intro foldl_incomeStep_district) auto
  with f main have second: "buildIncomeData ?rows' area = buildIncomeData rows area" by simp
  from assms(1) have ne: "filter (districtEntry area) rows \<noteq> []" by (auto simp: filter_empty_conv)
  then have "last (filter (districtEntry area) rows) \<in> set (filter (districtEntry area) rows)"
    by (rule last_in_set)
  with assms(2) have tr: "truthyNum ?v" by auto
  from assms(1) have a: "area \<noteq> []" by (auto simp: districtEntry_def acceptedIncome_def)
  have third: "strOr (demoData ''income_avg'') [] = []
          \<and> jsor (getProp props ''district'') (getProp props ''name'') = JStr area
        \<longrightarrow> avg_income numStr ''district'' (buildIncomeData rows) props demoData = JNum ?v"
    using main tr a np by (auto simp: avg_income_def Let_def hasIncome_own incomeAt_own toKey_def)
  from main second third show ?thesis by blast
qed

section \<open>The output fields of a matched feature\<close>

















end
